theory Spec2Isabelle
  imports Main
begin

section \<open>Values exchanged with the remote service\<close>

text \<open>
  Every value the two applications (\<^verbatim>\<open>agent.py\<close> and \<^verbatim>\<open>app.py\<close>) read from a request
  body or from a reply of the remote agent service is the result of parsing JSON. Objects
  are association lists read with \<open>map_of\<close>. Numbers are integers; floating point
  numbers are left out of the model.
\<close>

datatype json =
    JNull
  | JBool bool
  | JInt int
  | JStr string
  | JArr "json list"
  | JObj "(string \<times> json) list"

text \<open>
  Python exceptions are values: the class and the text that \<^verbatim>\<open>str(e)\<close> gives. The texts
  of the interpreter's own exceptions are those of CPython 3.11.
\<close>

datatype exn_kind =
    KeyError | IndexError | TypeError | AttributeError | RuntimeError
  | HTTPError | JSONDecodeError | ConnectionError | BadRequest

datatype py_exn = Exn exn_kind string

fun str_exn :: "py_exn \<Rightarrow> string" where
  "str_exn (Exn k s) = s"

definition sq :: "string \<Rightarrow> string" where
  "sq s = [CHR 0x27] @ s @ [CHR 0x27]"

fun py_type_name :: "json \<Rightarrow> string" where
  "py_type_name JNull = ''NoneType''"
| "py_type_name (JBool b) = ''bool''"
| "py_type_name (JInt n) = ''int''"
| "py_type_name (JStr s) = ''str''"
| "py_type_name (JArr xs) = ''list''"
| "py_type_name (JObj kvs) = ''dict''"

text \<open>Truth value of a Python object, as \<^verbatim>\<open>if x:\<close> and \<^verbatim>\<open>not x\<close> take it.\<close>

fun py_truthy :: "json \<Rightarrow> bool" where
  "py_truthy JNull = False"
| "py_truthy (JBool b) = b"
| "py_truthy (JInt n) = (n \<noteq> 0)"
| "py_truthy (JStr s) = (s \<noteq> [])"
| "py_truthy (JArr xs) = (xs \<noteq> [])"
| "py_truthy (JObj kvs) = (kvs \<noteq> [])"

text \<open>\<^verbatim>\<open>x[k]\<close> for a string literal \<open>k\<close>.\<close>

fun py_getitem :: "json \<Rightarrow> string \<Rightarrow> py_exn + json" where
  "py_getitem (JObj kvs) k =
     (case map_of kvs k of None \<Rightarrow> Inl (Exn KeyError (sq k)) | Some v \<Rightarrow> Inr v)"
| "py_getitem (JArr xs) k =
     Inl (Exn TypeError ''list indices must be integers or slices, not str'')"
| "py_getitem (JStr s) k =
     Inl (Exn TypeError (''string indices must be integers, not '' @ sq ''str''))"
| "py_getitem v k =
     Inl (Exn TypeError (sq (py_type_name v) @ '' object is not subscriptable''))"

text \<open>\<^verbatim>\<open>x[0]\<close>. A parsed JSON object has string keys only, so it never has the key 0.\<close>

fun py_getitem0 :: "json \<Rightarrow> py_exn + json" where
  "py_getitem0 (JArr xs) =
     (case xs of [] \<Rightarrow> Inl (Exn IndexError ''list index out of range'') | x # _ \<Rightarrow> Inr x)"
| "py_getitem0 (JStr s) =
     (case s of [] \<Rightarrow> Inl (Exn IndexError ''string index out of range'')
      | c # _ \<Rightarrow> Inr (JStr [c]))"
| "py_getitem0 (JObj kvs) = Inl (Exn KeyError ''0'')"
| "py_getitem0 v =
     Inl (Exn TypeError (sq (py_type_name v) @ '' object is not subscriptable''))"

text \<open>\<^verbatim>\<open>x.get(k, d)\<close>: only a dict has the method.\<close>

fun py_get :: "json \<Rightarrow> string \<Rightarrow> json \<Rightarrow> py_exn + json" where
  "py_get (JObj kvs) k d = (case map_of kvs k of None \<Rightarrow> Inr d | Some v \<Rightarrow> Inr v)"
| "py_get v k d =
     Inl (Exn AttributeError
       (sq (py_type_name v) @ '' object has no attribute '' @ sq ''get''))"

text \<open>
  The elements a \<^verbatim>\<open>for\<close> loop visits: those of a list, the keys of a dict, the
  characters of a string; anything else is not iterable.
\<close>

fun py_iter :: "json \<Rightarrow> py_exn + json list" where
  "py_iter (JArr xs) = Inr xs"
| "py_iter (JObj kvs) = Inr (map (\<lambda>kv. JStr (fst kv)) kvs)"
| "py_iter (JStr s) = Inr (map (\<lambda>c. JStr [c]) s)"
| "py_iter v = Inl (Exn TypeError (sq (py_type_name v) @ '' object is not iterable''))"

text \<open>\<^verbatim>\<open>a or b\<close>.\<close>

definition py_or :: "json \<Rightarrow> json \<Rightarrow> json" where
  "py_or a b = (if py_truthy a then a else b)"

section \<open>The world: configuration, process-wide state, the remote service\<close>

text \<open>
  An f-string that formats a value read from JSON is kept unrendered: its literal text
  and the formatted values, in order.
\<close>

datatype fpart = Lit string | Fmt json

type_synonym url = "fpart list"

type_synonym headers = "(string \<times> string) list option"

datatype http_method = GET | POST

record request =
  meth :: http_method
  target :: url
  hdrs :: headers
  payload :: "json option"
  timeout :: "nat option"

text \<open>
  A response of the service: its status code, its body when that parses as JSON
  (\<^verbatim>\<open>response.json()\<close> raises otherwise), and the text of the \<^verbatim>\<open>HTTPError\<close> that
  \<^verbatim>\<open>raise_for_status\<close> composes for it.
\<close>

record response =
  status_code :: int
  json_body :: "json option"
  error_text :: string

type_synonym reply = "py_exn + response"

datatype event = Req request | Sleep nat

text \<open>
  The state both applications run in. \<open>pending\<close> holds what the remote service answers
  to the requests still to come, in order (\<open>Inl\<close>: the HTTP library raises); when it is
  used up the service is unreachable. \<open>trace\<close> records every request sent and every
  \<^verbatim>\<open>time.sleep\<close>, oldest first. \<open>AGENT_ID\<close> and \<open>current_thread_id\<close> are the
  module-level globals (\<open>JNull\<close> is \<^verbatim>\<open>None\<close>). Output of \<^verbatim>\<open>print\<close> is not modelled.
\<close>

record world =
  ENDPOINT :: string
  MCP_SERVER_URL :: string
  MCP_SERVER_LABEL :: string
  aad_token :: "string option"
  api_key :: "string option"
  AGENT_ID :: json
  current_thread_id :: json
  pending :: "reply list"
  trace :: "event list"

definition API_VERSION :: string where
  "API_VERSION = ''v1''"

type_synonym 'a io = "world \<Rightarrow> (py_exn + 'a) \<times> world"

text \<open>Sequencing: an exception ends the computation, the state reached so far is kept.\<close>

definition bind_io :: "'a io \<Rightarrow> ('a \<Rightarrow> 'b io) \<Rightarrow> 'b io" where
  "bind_io m f w = (case m w of (Inl e, w') \<Rightarrow> (Inl e, w') | (Inr a, w') \<Rightarrow> f a w')"

definition return_io :: "'a \<Rightarrow> 'a io" where
  "return_io a w = (Inr a, w)"

definition lift_io :: "py_exn + 'a \<Rightarrow> 'a io" where
  "lift_io r w = (r, w)"

definition send_request :: "request \<Rightarrow> response io" where
  "send_request rq w =
     (case pending w of
        [] \<Rightarrow> (Inl (Exn ConnectionError ''''), w\<lparr>trace := trace w @ [Req rq]\<rparr>)
      | r # rs \<Rightarrow> (r, w\<lparr>pending := rs, trace := trace w @ [Req rq]\<rparr>))"

definition requests_post :: "url \<Rightarrow> headers \<Rightarrow> json \<Rightarrow> nat option \<Rightarrow> response io" where
  "requests_post u h j t =
     send_request \<lparr>meth = POST, target = u, hdrs = h, payload = Some j, timeout = t\<rparr>"

definition requests_get :: "url \<Rightarrow> headers \<Rightarrow> response io" where
  "requests_get u h =
     send_request \<lparr>meth = GET, target = u, hdrs = h, payload = None, timeout = None\<rparr>"

definition time_sleep :: "nat \<Rightarrow> unit io" where
  "time_sleep n w = (Inr (), w\<lparr>trace := trace w @ [Sleep n]\<rparr>)"

definition response_json :: "response \<Rightarrow> py_exn + json" where
  "response_json r =
     (case json_body r of None \<Rightarrow> Inl (Exn JSONDecodeError '''') | Some j \<Rightarrow> Inr j)"

definition raise_for_status :: "response \<Rightarrow> py_exn + unit" where
  "raise_for_status r =
     (if 400 \<le> status_code r \<and> status_code r < 600
      then Inl (Exn HTTPError (error_text r)) else Inr ())"

definition bind_e :: "py_exn + 'a \<Rightarrow> ('a \<Rightarrow> py_exn + 'b) \<Rightarrow> py_exn + 'b" where
  "bind_e r f = (case r of Inl e \<Rightarrow> Inl e | Inr a \<Rightarrow> f a)"

section \<open>Credentials\<close>

text \<open>
  \<^verbatim>\<open>get_headers\<close> of \<^verbatim>\<open>agent.py\<close>: a bearer token when the credential gives one
  (\<open>aad_token\<close> is \<open>None\<close> when acquiring it raises), else the API key of the
  environment, else \<^verbatim>\<open>RuntimeError\<close>.
\<close>

definition agent_get_headers :: "world \<Rightarrow> py_exn + headers" where
  "agent_get_headers w =
     (case aad_token w of
        Some token \<Rightarrow>
          Inr (Some [(''Authorization'', ''Bearer '' @ token),
                     (''Content-Type'', ''application/json'')])
      | None \<Rightarrow>
          (case api_key w of
             None \<Rightarrow> Inl (Exn RuntimeError
               ''No Azure auth available. Set AZURE_AI_API_KEY or enable Managed Identity.'')
           | Some k \<Rightarrow>
               if k = [] then Inl (Exn RuntimeError
                 ''No Azure auth available. Set AZURE_AI_API_KEY or enable Managed Identity.'')
               else Inr (Some [(''api-key'', k), (''Content-Type'', ''application/json'')])))"

text \<open>
  \<^verbatim>\<open>get_auth_headers\<close> of \<^verbatim>\<open>app.py\<close>: the same, but without a key the function falls
  off its end and returns \<^verbatim>\<open>None\<close>.
\<close>

definition app_get_auth_headers :: "world \<Rightarrow> py_exn + headers" where
  "app_get_auth_headers w =
     (case aad_token w of
        Some token \<Rightarrow>
          Inr (Some [(''Authorization'', ''Bearer '' @ token),
                     (''Content-Type'', ''application/json'')])
      | None \<Rightarrow>
          (case api_key w of
             None \<Rightarrow> Inr None
           | Some k \<Rightarrow>
               if k \<noteq> [] then Inr (Some [(''api-key'', k), (''Content-Type'', ''application/json'')])
               else Inr None))"

section \<open>The remote operations\<close>

definition assistants_url :: "string \<Rightarrow> url" where
  "assistants_url E = [Lit (E @ ''/assistants?api-version='' @ API_VERSION)]"

definition threads_url :: "string \<Rightarrow> url" where
  "threads_url E = [Lit (E @ ''/threads?api-version='' @ API_VERSION)]"

definition messages_url :: "string \<Rightarrow> json \<Rightarrow> url" where
  "messages_url E thread_id =
     [Lit (E @ ''/threads/''), Fmt thread_id, Lit (''/messages?api-version='' @ API_VERSION)]"

definition run_url :: "string \<Rightarrow> json \<Rightarrow> url" where
  "run_url E thread_id =
     [Lit (E @ ''/threads/''), Fmt thread_id, Lit (''/runs?api-version='' @ API_VERSION)]"

definition status_url :: "string \<Rightarrow> json \<Rightarrow> json \<Rightarrow> url" where
  "status_url E thread_id run_id =
     [Lit (E @ ''/threads/''), Fmt thread_id, Lit ''/runs/'', Fmt run_id,
      Lit (''?api-version='' @ API_VERSION)]"

definition submit_url :: "string \<Rightarrow> json \<Rightarrow> json \<Rightarrow> url" where
  "submit_url E thread_id run_id =
     [Lit (E @ ''/threads/''), Fmt thread_id, Lit ''/runs/'', Fmt run_id,
      Lit (''/submit_tool_outputs?api-version='' @ API_VERSION)]"

definition agent_payload :: "world \<Rightarrow> json" where
  "agent_payload w = JObj
     [(''model'', JStr ''gpt-4o''),
      (''name'', JStr ''MCP Agent''),
      (''description'', JStr ''An agent with MCP tools''),
      (''instructions'', JStr
         ''You are a helpful AI assistant with access to Microsoft Learn documentation via MCP tools.''),
      (''tools'', JArr [JObj
         [(''type'', JStr ''mcp''),
          (''server_url'', JStr (MCP_SERVER_URL w)),
          (''server_label'', JStr (MCP_SERVER_LABEL w))]])]"

definition app_payload :: json where
  "app_payload = JObj
     [(''model'', JStr ''gpt-4o''),
      (''name'', JStr ''Simple Agent''),
      (''description'', JStr ''A simple AI assistant''),
      (''instructions'', JStr ''You are a helpful AI assistant.''),
      (''tools'', JArr [])]"

text \<open>
  \<^verbatim>\<open>create_agent\<close>: the cached identifier when there is one; otherwise one POST, whose
  failure raises, and the identifier of the reply is cached. The two files differ in
  the payload and in the function that gives the headers.
\<close>

definition create_agent :: "(world \<Rightarrow> py_exn + headers) \<Rightarrow> (world \<Rightarrow> json) \<Rightarrow> json io" where
  "create_agent get_hdrs pl w =
     (if py_truthy (AGENT_ID w) then (Inr (AGENT_ID w), w)
      else
        bind_io (lift_io (get_hdrs w)) (\<lambda>h.
        bind_io (requests_post (assistants_url (ENDPOINT w)) h (pl w) (Some 30)) (\<lambda>r.
        bind_io (lift_io (raise_for_status r)) (\<lambda>_.
        bind_io (lift_io (response_json r)) (\<lambda>agent.
        bind_io (lift_io (py_getitem agent ''id'')) (\<lambda>i w'.
          (Inr i, w'\<lparr>AGENT_ID := i\<rparr>)))))) w)"

definition agent_create_agent :: "json io" where
  "agent_create_agent = create_agent agent_get_headers agent_payload"

definition app_create_agent :: "json io" where
  "app_create_agent = create_agent app_get_auth_headers (\<lambda>w. app_payload)"

text \<open>
  \<^verbatim>\<open>create_thread\<close>: the whole body is inside \<^verbatim>\<open>try\<close>, so every exception ends in
  \<^verbatim>\<open>None\<close>; a status outside 200 and 201 does too.
\<close>

definition create_thread :: "(world \<Rightarrow> py_exn + headers) \<Rightarrow> world \<Rightarrow> json \<times> world" where
  "create_thread get_hdrs w =
     (case
        bind_io (lift_io (get_hdrs w)) (\<lambda>h.
        bind_io (requests_post (threads_url (ENDPOINT w)) h (JObj []) None) (\<lambda>r.
          if status_code r \<in> {200, 201} then
            bind_io (lift_io (response_json r)) (\<lambda>thread_data.
              lift_io (py_getitem thread_data ''id''))
          else return_io JNull)) w
      of (Inl e, w') \<Rightarrow> (JNull, w') | (Inr thread_id, w') \<Rightarrow> (thread_id, w'))"

definition agent_create_thread :: "world \<Rightarrow> json \<times> world" where
  "agent_create_thread = create_thread agent_get_headers"

definition app_create_thread :: "world \<Rightarrow> json \<times> world" where
  "app_create_thread = create_thread app_get_auth_headers"

section \<open>The run orchestrator\<close>

text \<open>How one iteration of the polling loop ends.\<close>

datatype flow = Return json | Break | Next

definition fallback :: string where
  "fallback = ''Sorry, I couldn't process your request at the moment.''"

text \<open>\<^verbatim>\<open>msg['content'][0]['text']['value']\<close>\<close>

definition text_value :: "json \<Rightarrow> py_exn + json" where
  "text_value msg =
     bind_e (py_getitem msg ''content'') (\<lambda>c.
     bind_e (py_getitem0 c) (\<lambda>c0.
     bind_e (py_getitem c0 ''text'') (\<lambda>t.
       py_getitem t ''value'')))"

text \<open>
  The scan of the message list: the first message whose role is \<^verbatim>\<open>assistant\<close> is
  returned from; when the list ends, the \<^verbatim>\<open>break\<close> after the loop is reached.
\<close>

fun first_assistant :: "json list \<Rightarrow> py_exn + flow" where
  "first_assistant [] = Inr Break"
| "first_assistant (msg # rest) =
     bind_e (py_getitem msg ''role'') (\<lambda>role.
       if role = JStr ''assistant''
       then bind_e (text_value msg) (\<lambda>content. Inr (Return content))
       else first_assistant rest)"

text \<open>The branch for status \<^verbatim>\<open>completed\<close>, the same text in both files.\<close>

definition completed_branch :: "json \<Rightarrow> headers \<Rightarrow> flow io" where
  "completed_branch thread_id h w =
     bind_io (requests_get (messages_url (ENDPOINT w) thread_id) h) (\<lambda>messages_response.
       if status_code messages_response = 200 then
         bind_io (lift_io (response_json messages_response)) (\<lambda>j.
         bind_io (lift_io (py_getitem j ''data'')) (\<lambda>messages.
         bind_io (lift_io (py_iter messages)) (\<lambda>msgs.
           lift_io (first_assistant msgs))))
       else return_io Break) w"

definition approval :: "json \<Rightarrow> json" where
  "approval i = JObj [(''tool_call_id'', i), (''approve'', JBool True), (''headers'', JObj [])]"

text \<open>
  The loop that builds \<^verbatim>\<open>tool_approvals\<close>, the same text at its three places: one
  record is appended for every call whose type is \<^verbatim>\<open>mcp\<close>.
\<close>

fun collect_approvals :: "json list \<Rightarrow> json list \<Rightarrow> py_exn + json list" where
  "collect_approvals tool_approvals [] = Inr tool_approvals"
| "collect_approvals tool_approvals (tc # rest) =
     bind_e (py_get tc ''type'' JNull) (\<lambda>t.
       if t = JStr ''mcp''
       then bind_e (py_getitem tc ''id'') (\<lambda>i.
              collect_approvals (tool_approvals @ [approval i]) rest)
       else collect_approvals tool_approvals rest)"

subsection \<open>\<^verbatim>\<open>agent.py\<close>\<close>

text \<open>
  The branch for status \<^verbatim>\<open>requires_action\<close>: the type of the required action selects
  the field that holds the tool calls; after an accepted submission the iteration goes on
  to its \<^verbatim>\<open>time.sleep(1)\<close>.
\<close>

definition agent_requires_action :: "json \<Rightarrow> json \<Rightarrow> headers \<Rightarrow> json \<Rightarrow> flow io" where
  "agent_requires_action thread_id run_id h run_data w =
     bind_io (lift_io (py_get run_data ''required_action'' JNull)) (\<lambda>ra.
       let required_action = py_or ra (JObj []) in
       bind_io (lift_io (py_get required_action ''type'' (JStr []))) (\<lambda>ra_type.
         if ra_type = JStr ''submit_tool_outputs'' then
           bind_io (lift_io (py_get required_action ''submit_tool_outputs'' (JObj []))) (\<lambda>details.
           bind_io (lift_io (py_get details ''tool_calls'' (JArr []))) (\<lambda>tool_calls.
           bind_io (lift_io (py_iter tool_calls)) (\<lambda>tcs.
           bind_io (lift_io (collect_approvals [] tcs)) (\<lambda>tool_approvals.
             if tool_approvals \<noteq> [] then
               bind_io (requests_post (submit_url (ENDPOINT w) thread_id run_id) h
                          (JObj [(''tool_approvals'', JArr tool_approvals)]) (Some 30))
                 (\<lambda>submit_response.
                    if status_code submit_response \<noteq> 200 then return_io Break
                    else bind_io (time_sleep 1) (\<lambda>_. return_io Next))
             else return_io Break))))
         else if ra_type = JStr ''submit_tool_approval'' then
           bind_io (lift_io (py_get required_action ''submit_tool_approval'' (JObj []))) (\<lambda>details.
           bind_io (lift_io (py_get details ''tool_calls'' (JArr []))) (\<lambda>tool_calls.
           bind_io (lift_io (py_iter tool_calls)) (\<lambda>tcs.
           bind_io (lift_io (collect_approvals [] tcs)) (\<lambda>tool_approvals.
             if tool_approvals \<noteq> [] then
               bind_io (requests_post (submit_url (ENDPOINT w) thread_id run_id) h
                          (JObj [(''tool_approvals'', JArr tool_approvals)]) (Some 30))
                 (\<lambda>submit_response.
                    if status_code submit_response \<noteq> 200 then return_io Break
                    else bind_io (time_sleep 1) (\<lambda>_. return_io Next))
             else return_io Break))))
         else return_io Break)) w"

subsection \<open>\<^verbatim>\<open>app.py\<close>\<close>

text \<open>
  The branch for status \<^verbatim>\<open>requires_action\<close>: the tool calls are read from whichever
  of the two fields is present, the type of the required action is not looked at; an
  accepted submission ends in \<^verbatim>\<open>continue\<close>, which skips the \<^verbatim>\<open>time.sleep(1)\<close> of the
  iteration.
\<close>

definition app_requires_action :: "json \<Rightarrow> json \<Rightarrow> headers \<Rightarrow> json \<Rightarrow> flow io" where
  "app_requires_action thread_id run_id h run_data w =
     bind_io (lift_io (py_getitem run_data ''required_action'')) (\<lambda>required_action.
     bind_io (lift_io (py_get required_action ''submit_tool_outputs'' JNull)) (\<lambda>d1.
     bind_io (if py_truthy d1 then return_io d1
              else bind_io (lift_io (py_get required_action ''submit_tool_approval'' JNull))
                     (\<lambda>d2. return_io (py_or d2 (JObj [])))) (\<lambda>details.
     bind_io (lift_io (py_get details ''tool_calls'' (JArr []))) (\<lambda>calls.
       if py_truthy calls then
         bind_io (lift_io (py_iter calls)) (\<lambda>tcs.
         bind_io (lift_io (collect_approvals [] tcs)) (\<lambda>tool_approvals.
           if tool_approvals \<noteq> [] then
             bind_io (requests_post (submit_url (ENDPOINT w) thread_id run_id) h
                        (JObj [(''tool_approvals'', JArr tool_approvals)]) (Some 30))
               (\<lambda>submit_response.
                  if status_code submit_response \<noteq> 200 then return_io Break
                  else return_io Next)
           else return_io Break))
       else return_io Break)))) w"

subsection \<open>The polling loop and \<^verbatim>\<open>send_message\<close>\<close>

text \<open>
  Outside the branch for \<^verbatim>\<open>requires_action\<close>, the polling loop and \<^verbatim>\<open>send_message\<close>
  are the same text in both files; the model takes the file's own branch, its
  \<^verbatim>\<open>create_agent\<close> and its function for the headers as arguments.

  One iteration of \<^verbatim>\<open>for _ in range(max_attempts)\<close>:
\<close>

definition poll_body ::
  "(json \<Rightarrow> json \<Rightarrow> headers \<Rightarrow> json \<Rightarrow> flow io) \<Rightarrow> json \<Rightarrow> json \<Rightarrow> headers \<Rightarrow> flow io"
where
  "poll_body requires_action thread_id run_id h w =
     bind_io (requests_get (status_url (ENDPOINT w) thread_id run_id) h) (\<lambda>status_response.
       if status_code status_response = 200 then
         bind_io (lift_io (response_json status_response)) (\<lambda>run_data.
         bind_io (lift_io (py_getitem run_data ''status'')) (\<lambda>status.
           if status = JStr ''completed'' then completed_branch thread_id h
           else if status = JStr ''requires_action''
             then requires_action thread_id run_id h run_data
           else if status \<in> set [JStr ''failed'', JStr ''cancelled'', JStr ''expired'']
             then return_io Break
           else bind_io (time_sleep 1) (\<lambda>_. return_io Next)))
       else bind_io (time_sleep 1) (\<lambda>_. return_io Next)) w"

text \<open>
  The loop over the attempts left: \<open>Some v\<close> when an iteration returned \<open>v\<close>, \<open>None\<close>
  when the loop was left by \<^verbatim>\<open>break\<close> or ran out of attempts.
\<close>

fun poll ::
  "(json \<Rightarrow> json \<Rightarrow> headers \<Rightarrow> json \<Rightarrow> flow io) \<Rightarrow> nat \<Rightarrow> json \<Rightarrow> json \<Rightarrow> headers
     \<Rightarrow> json option io"
where
  "poll requires_action 0 thread_id run_id h w = (Inr None, w)"
| "poll requires_action (Suc n) thread_id run_id h w =
     (case poll_body requires_action thread_id run_id h w of
        (Inl e, w') \<Rightarrow> (Inl e, w')
      | (Inr (Return v), w') \<Rightarrow> (Inr (Some v), w')
      | (Inr Break, w') \<Rightarrow> (Inr None, w')
      | (Inr Next, w') \<Rightarrow> poll requires_action n thread_id run_id h w')"

definition max_attempts :: nat where
  "max_attempts = 30"

definition send_message ::
  "json io \<Rightarrow> (world \<Rightarrow> py_exn + headers) \<Rightarrow> (json \<Rightarrow> json \<Rightarrow> headers \<Rightarrow> json \<Rightarrow> flow io)
     \<Rightarrow> json \<Rightarrow> json \<Rightarrow> json io"
where
  "send_message create_agent_f get_hdrs requires_action thread_id message w =
     bind_io create_agent_f (\<lambda>agent_id.
     bind_io (\<lambda>w. lift_io (get_hdrs w) w) (\<lambda>h.
     bind_io (\<lambda>w. requests_post (messages_url (ENDPOINT w) thread_id) h
                 (JObj [(''role'', JStr ''user''), (''content'', message)]) None w) (\<lambda>response.
       if status_code response \<notin> {200, 201} then return_io JNull
       else
         bind_io (\<lambda>w. requests_post (run_url (ENDPOINT w) thread_id) h
                    (JObj [(''assistant_id'', agent_id)]) None w) (\<lambda>run_response.
           if status_code run_response \<notin> {200, 201} then return_io JNull
           else
             bind_io (lift_io (response_json run_response)) (\<lambda>j.
             bind_io (lift_io (py_getitem j ''id'')) (\<lambda>run_id.
             bind_io (poll requires_action max_attempts thread_id run_id h) (\<lambda>res.
               case res of Some content \<Rightarrow> return_io content
               | None \<Rightarrow> return_io (JStr fallback)))))))) w"

definition agent_send_message :: "json \<Rightarrow> json \<Rightarrow> json io" where
  "agent_send_message = send_message agent_create_agent agent_get_headers agent_requires_action"

definition app_send_message :: "json \<Rightarrow> json \<Rightarrow> json io" where
  "app_send_message = send_message app_create_agent app_get_auth_headers app_requires_action"

section \<open>The chat service\<close>

text \<open>
  \<^verbatim>\<open>chat\<close>, the handler of \<^verbatim>\<open>POST /chat\<close>, is the same text in both files; the model
  takes the file's own \<^verbatim>\<open>create_thread\<close> and \<^verbatim>\<open>send_message\<close> as arguments. Its input
  is what \<^verbatim>\<open>request.get_json()\<close> gives: the parsed body, or an exception. The result is
  the JSON body of the response and its status code.
\<close>

definition error_body :: "string \<Rightarrow> json" where
  "error_body s = JObj [(''error'', JStr s)]"

text \<open>The statements after the thread is known to exist.\<close>

definition chat_send :: "(json \<Rightarrow> json \<Rightarrow> json io) \<Rightarrow> json \<Rightarrow> (json \<times> int) io" where
  "chat_send send_message_f message w =
     bind_io (send_message_f (current_thread_id w) message) (\<lambda>response w'.
       if py_truthy response
       then (Inr (JObj [(''response'', response), (''thread_id'', current_thread_id w')], 200), w')
       else (Inr (error_body ''Failed to get response from agent'', 500), w')) w"

text \<open>The body of the \<^verbatim>\<open>try\<close> block.\<close>

definition chat_try ::
  "(world \<Rightarrow> json \<times> world) \<Rightarrow> (json \<Rightarrow> json \<Rightarrow> json io) \<Rightarrow> py_exn + json \<Rightarrow> (json \<times> int) io"
where
  "chat_try create_thread_f send_message_f get_json w =
     bind_io (lift_io get_json) (\<lambda>data.
     bind_io (lift_io (py_get data ''message'' (JStr []))) (\<lambda>message w.
       if \<not> py_truthy message then (Inr (error_body ''No message provided'', 400), w)
       else if \<not> py_truthy (current_thread_id w) then
         (case create_thread_f w of (t, w1) \<Rightarrow>
            let w2 = w1\<lparr>current_thread_id := t\<rparr> in
            if \<not> py_truthy (current_thread_id w2)
            then (Inr (error_body ''Failed to create conversation thread'', 500), w2)
            else chat_send send_message_f message w2)
       else chat_send send_message_f message w)) w"

definition chat ::
  "(world \<Rightarrow> json \<times> world) \<Rightarrow> (json \<Rightarrow> json \<Rightarrow> json io) \<Rightarrow> py_exn + json
     \<Rightarrow> world \<Rightarrow> (json \<times> int) \<times> world"
where
  "chat create_thread_f send_message_f get_json w =
     (case chat_try create_thread_f send_message_f get_json w of
        (Inr res, w') \<Rightarrow> (res, w')
      | (Inl e, w') \<Rightarrow> ((error_body (str_exn e), 500), w'))"

definition agent_chat :: "py_exn + json \<Rightarrow> world \<Rightarrow> (json \<times> int) \<times> world" where
  "agent_chat = chat agent_create_thread agent_send_message"

definition app_chat :: "py_exn + json \<Rightarrow> world \<Rightarrow> (json \<times> int) \<times> world" where
  "app_chat = chat app_create_thread app_send_message"

section \<open>Vocabulary of the properties\<close>

text \<open>The requests that \<^verbatim>\<open>send_message\<close> sends, as they appear in the trace.\<close>

definition message_request :: "string \<Rightarrow> json \<Rightarrow> headers \<Rightarrow> json \<Rightarrow> request" where
  "message_request E thread_id h message =
     \<lparr>meth = POST, target = messages_url E thread_id, hdrs = h,
      payload = Some (JObj [(''role'', JStr ''user''), (''content'', message)]), timeout = None\<rparr>"

definition run_request :: "string \<Rightarrow> json \<Rightarrow> headers \<Rightarrow> json \<Rightarrow> request" where
  "run_request E thread_id h agent_id =
     \<lparr>meth = POST, target = run_url E thread_id, hdrs = h,
      payload = Some (JObj [(''assistant_id'', agent_id)]), timeout = None\<rparr>"

definition status_request :: "string \<Rightarrow> json \<Rightarrow> json \<Rightarrow> headers \<Rightarrow> request" where
  "status_request E thread_id run_id h =
     \<lparr>meth = GET, target = status_url E thread_id run_id, hdrs = h, payload = None,
      timeout = None\<rparr>"

definition list_request :: "string \<Rightarrow> json \<Rightarrow> headers \<Rightarrow> request" where
  "list_request E thread_id h =
     \<lparr>meth = GET, target = messages_url E thread_id, hdrs = h, payload = None, timeout = None\<rparr>"

definition submit_request :: "string \<Rightarrow> json \<Rightarrow> json \<Rightarrow> headers \<Rightarrow> json list \<Rightarrow> request" where
  "submit_request E thread_id run_id h tool_approvals =
     \<lparr>meth = POST, target = submit_url E thread_id run_id, hdrs = h,
      payload = Some (JObj [(''tool_approvals'', JArr tool_approvals)]), timeout = Some 30\<rparr>"

definition thread_request :: "string \<Rightarrow> headers \<Rightarrow> request" where
  "thread_request E h =
     \<lparr>meth = POST, target = threads_url E, hdrs = h, payload = Some (JObj []), timeout = None\<rparr>"

text \<open>A reply with status 200 or 201, as the posts of \<^verbatim>\<open>send_message\<close> require.\<close>

definition accepted :: "reply \<Rightarrow> bool" where
  "accepted p = (case p of Inl e \<Rightarrow> False | Inr r \<Rightarrow> status_code r \<in> {200, 201})"

text \<open>An accepted reply whose JSON body has the identifier \<open>i\<close>.\<close>

definition created :: "reply \<Rightarrow> json \<Rightarrow> bool" where
  "created p i =
     (case p of Inl e \<Rightarrow> False
      | Inr r \<Rightarrow> status_code r \<in> {200, 201} \<and>
          (case json_body r of None \<Rightarrow> False | Some j \<Rightarrow> py_getitem j ''id'' = Inr i))"

text \<open>
  \<open>run_started get_hdrs w h run_id rest\<close>: in the world \<open>w\<close> the agent exists, the
  headers are \<open>h\<close>, and the service accepts the message, then creates the run \<open>run_id\<close>;
  \<open>rest\<close> is what it answers afterwards.
\<close>

definition run_started ::
  "(world \<Rightarrow> py_exn + headers) \<Rightarrow> world \<Rightarrow> headers \<Rightarrow> json \<Rightarrow> reply list \<Rightarrow> bool"
where
  "run_started get_hdrs w h run_id rest =
     (py_truthy (AGENT_ID w) \<and> get_hdrs w = Inr h \<and>
      (case pending w of
         [] \<Rightarrow> False
       | m # ps \<Rightarrow>
           (case ps of [] \<Rightarrow> False
            | r # others \<Rightarrow> others = rest \<and> accepted m \<and> created r run_id)))"

text \<open>The world in which the polling loop starts: both requests sent, both replies used.\<close>

definition polling :: "world \<Rightarrow> json \<Rightarrow> json \<Rightarrow> headers \<Rightarrow> reply list \<Rightarrow> world" where
  "polling w thread_id message h rest =
     w\<lparr>pending := rest,
       trace := trace w @ [Req (message_request (ENDPOINT w) thread_id h message),
                           Req (run_request (ENDPOINT w) thread_id h (AGENT_ID w))]\<rparr>"

text \<open>A reply to a status poll with HTTP status 200 and the run status \<open>s\<close>.\<close>

definition status_reply :: "reply \<Rightarrow> json \<Rightarrow> bool" where
  "status_reply p s =
     (case p of Inl e \<Rightarrow> False
      | Inr r \<Rightarrow> status_code r = 200 \<and>
          (case json_body r of None \<Rightarrow> False | Some j \<Rightarrow> py_getitem j ''status'' = Inr s))"

definition nonterminal_reply :: "reply \<Rightarrow> bool" where
  "nonterminal_reply p = (status_reply p (JStr ''in_progress'') \<or> status_reply p (JStr ''queued''))"

text \<open>A reply to a status poll whose HTTP status is not 200.\<close>

definition failed_poll :: "reply \<Rightarrow> bool" where
  "failed_poll p = (case p of Inl e \<Rightarrow> False | Inr r \<Rightarrow> status_code r \<noteq> 200)"

text \<open>
  A reply to a status poll on which no branch of the loop body is taken: the HTTP status
  is not 200, or the run status is none of the five that the loop tests for.
\<close>

definition idle_reply :: "reply \<Rightarrow> bool" where
  "idle_reply p =
     (case p of Inl e \<Rightarrow> False
      | Inr r \<Rightarrow>
          status_code r \<noteq> 200 \<or>
          (case json_body r of None \<Rightarrow> False
           | Some j \<Rightarrow>
               (case py_getitem j ''status'' of Inl e \<Rightarrow> False
                | Inr s \<Rightarrow> s \<notin> set [JStr ''completed'', JStr ''requires_action'',
                     JStr ''failed'', JStr ''cancelled'', JStr ''expired''])))"

text \<open>The trace of \<open>k\<close> polls that each end in the sleep.\<close>

definition idle_trace :: "nat \<Rightarrow> string \<Rightarrow> json \<Rightarrow> json \<Rightarrow> headers \<Rightarrow> event list" where
  "idle_trace k E thread_id run_id h =
     concat (replicate k [Req (status_request E thread_id run_id h), Sleep 1])"

text \<open>The two shapes of a response body of \<^verbatim>\<open>POST /chat\<close>.\<close>

fun is_success_body :: "json \<Rightarrow> bool" where
  "is_success_body (JObj [(k1, r), (k2, t)]) =
     (k1 = ''response'' \<and> k2 = ''thread_id'' \<and> py_truthy r)"
| "is_success_body v = False"

fun is_error_body :: "json \<Rightarrow> bool" where
  "is_error_body (JObj [(k, JStr s)]) = (k = ''error'')"
| "is_error_body v = False"

text \<open>
  Concrete worlds for the examples: the agent and the thread exist, a bearer token is
  available, and the service answers with the replies \<open>rs\<close>.
\<close>

definition json_reply :: "int \<Rightarrow> json \<Rightarrow> reply" where
  "json_reply c j = Inr \<lparr>status_code = c, json_body = Some j, error_text = []\<rparr>"

definition example_world :: "reply list \<Rightarrow> world" where
  "example_world rs =
     \<lparr>ENDPOINT = ''https://example.test/api/projects/demo'',
      MCP_SERVER_URL = ''https://learn.microsoft.com/api/mcp'',
      MCP_SERVER_LABEL = ''mslearn'',
      aad_token = Some ''token'', api_key = None,
      AGENT_ID = JStr ''asst_1'', current_thread_id = JStr ''thread_1'',
      pending = rs, trace = []\<rparr>"

definition example_headers :: headers where
  "example_headers =
     Some [(''Authorization'', ''Bearer token''), (''Content-Type'', ''application/json'')]"

text \<open>The same, before any thread was created.\<close>

definition fresh_world :: "reply list \<Rightarrow> world" where
  "fresh_world rs = (example_world rs)\<lparr>current_thread_id := JNull\<rparr>"

definition status_body :: "string \<Rightarrow> json" where
  "status_body s = JObj [(''id'', JStr ''run_1''), (''status'', JStr s)]"

text \<open>
  The world after \<open>k\<close> polls that each ended in the sleep; \<open>rest\<close> is what the service
  answers from then on.
\<close>

definition polled ::
  "nat \<Rightarrow> world \<Rightarrow> json \<Rightarrow> json \<Rightarrow> headers \<Rightarrow> json \<Rightarrow> reply list \<Rightarrow> world"
where
  "polled k w thread_id message h run_id rest =
     w\<lparr>pending := rest,
       trace := trace w @ [Req (message_request (ENDPOINT w) thread_id h message),
                           Req (run_request (ENDPOINT w) thread_id h (AGENT_ID w))]
                @ idle_trace k (ENDPOINT w) thread_id run_id h\<rparr>"

text \<open>Counting in a trace: the polls of the run status, and the sleeps with their lengths.\<close>

fun is_status_url :: "url \<Rightarrow> bool" where
  "is_status_url [Lit a, Fmt t, Lit b, Fmt r, Lit c] =
     (b = ''/runs/'' \<and> c = ''?api-version='' @ API_VERSION)"
| "is_status_url u = False"

fun is_status_poll :: "event \<Rightarrow> bool" where
  "is_status_poll (Req rq) = (meth rq = GET \<and> is_status_url (target rq))"
| "is_status_poll (Sleep n) = False"

definition status_polls :: "event list \<Rightarrow> nat" where
  "status_polls tr = length (filter is_status_poll tr)"

fun sleeps :: "event list \<Rightarrow> nat list" where
  "sleeps [] = []"
| "sleeps (Sleep n # tr) = n # sleeps tr"
| "sleeps (Req rq # tr) = sleeps tr"

text \<open>The submissions of approvals in a trace, each with its payload.\<close>

fun is_submit_url :: "url \<Rightarrow> bool" where
  "is_submit_url [Lit a, Fmt t, Lit b, Fmt r, Lit c] =
     (b = ''/runs/'' \<and> c = ''/submit_tool_outputs?api-version='' @ API_VERSION)"
| "is_submit_url u = False"

fun submissions :: "event list \<Rightarrow> json option list" where
  "submissions [] = []"
| "submissions (Sleep n # tr) = submissions tr"
| "submissions (Req rq # tr) =
     (if meth rq = POST \<and> is_submit_url (target rq) then payload rq # submissions tr
      else submissions tr)"

text \<open>A reply to the listing of the messages: status 200 and the list \<open>msgs\<close> as data.\<close>

definition messages_reply :: "reply \<Rightarrow> json list \<Rightarrow> bool" where
  "messages_reply q msgs =
     (case q of Inl e \<Rightarrow> False
      | Inr r \<Rightarrow> status_code r = 200 \<and>
          (case json_body r of None \<Rightarrow> False
           | Some j \<Rightarrow> py_getitem j ''data'' = Inr (JArr msgs)))"

text \<open>Every message of the list has a role, and none has the role \<^verbatim>\<open>assistant\<close>.\<close>

definition no_assistant :: "json list \<Rightarrow> bool" where
  "no_assistant msgs =
     list_all (\<lambda>m. case py_getitem m ''role'' of Inl e \<Rightarrow> False
                    | Inr role \<Rightarrow> role \<noteq> JStr ''assistant'') msgs"

definition failure_status :: "json \<Rightarrow> bool" where
  "failure_status s = (s \<in> set [JStr ''failed'', JStr ''cancelled'', JStr ''expired''])"

text \<open>The replies of a service that accepts the message and creates the run \<^verbatim>\<open>run_1\<close>.\<close>

definition started_replies :: "reply list" where
  "started_replies = [json_reply 200 (JObj []), json_reply 200 (JObj [(''id'', JStr ''run_1'')])]"

text \<open>A reply without a JSON body.\<close>

definition plain_reply :: "int \<Rightarrow> reply" where
  "plain_reply c = Inr \<lparr>status_code = c, json_body = None, error_text = []\<rparr>"

text \<open>
  The world in which \<^verbatim>\<open>chat\<close> calls \<^verbatim>\<open>send_message\<close>: the given one when a thread is
  cached, else the one after \<^verbatim>\<open>create_thread\<close> and the assignment of its result.
\<close>

definition ensure_thread :: "(world \<Rightarrow> json \<times> world) \<Rightarrow> world \<Rightarrow> world" where
  "ensure_thread create_thread_f w =
     (if py_truthy (current_thread_id w) then w
      else (case create_thread_f w of (t, w1) \<Rightarrow> w1\<lparr>current_thread_id := t\<rparr>))"

text \<open>The two defects of an assistant message: no content element, no text value in the first.\<close>

definition empty_content :: "json \<Rightarrow> bool" where
  "empty_content a = (py_getitem a ''content'' = Inr (JArr []))"

definition lacks_text_value :: "json \<Rightarrow> bool" where
  "lacks_text_value a =
     (case py_getitem a ''content'' of
        Inr (JArr (JObj c0 # cs)) \<Rightarrow>
          (case map_of c0 ''text'' of
             None \<Rightarrow> True
           | Some t \<Rightarrow> (case t of JObj kvs \<Rightarrow> map_of kvs ''value'' = None | _ \<Rightarrow> False))
      | _ \<Rightarrow> False)"

text \<open>
  The requests that create a thread, counted in a trace, and what a chat request may not
  change once a thread is cached: the cached identifier and the number of these requests.
\<close>

definition thread_posts :: "string \<Rightarrow> event list \<Rightarrow> nat" where
  "thread_posts E tr =
     length (filter (\<lambda>e. case e of Req rq \<Rightarrow> meth rq = POST \<and> target rq = threads_url E
                              | Sleep n \<Rightarrow> False) tr)"

definition thread_state :: "world \<Rightarrow> json \<times> string \<times> nat" where
  "thread_state w = (current_thread_id w, ENDPOINT w, thread_posts (ENDPOINT w) (trace w))"

text \<open>The chat requests of a process, handled one after the other.\<close>

fun serve :: "('r \<Rightarrow> world \<Rightarrow> (json \<times> int) \<times> world) \<Rightarrow> 'r list \<Rightarrow> world \<Rightarrow> world" where
  "serve handler [] w = w"
| "serve handler (rq # rqs) w = serve handler rqs (snd (handler rq w))"

text \<open>
  Tool calls as a well-formed payload lists them: every call is an object, and a call of
  type \<^verbatim>\<open>mcp\<close> has an \<^verbatim>\<open>id\<close>.  The approvals that the loop over the calls builds for them.
\<close>

definition is_mcp :: "json \<Rightarrow> bool" where
  "is_mcp tc = (py_get tc ''type'' JNull = Inr (JStr ''mcp''))"

definition call_id :: "json \<Rightarrow> json" where
  "call_id tc = (case py_getitem tc ''id'' of Inl e \<Rightarrow> JNull | Inr i \<Rightarrow> i)"

definition well_formed_call :: "json \<Rightarrow> bool" where
  "well_formed_call tc =
     (case tc of
        JObj kvs \<Rightarrow>
          (if map_of kvs ''type'' = Some (JStr ''mcp'') then map_of kvs ''id'' \<noteq> None else True)
      | _ \<Rightarrow> False)"

definition expected_approvals :: "json list \<Rightarrow> json list" where
  "expected_approvals calls =
     map (\<lambda>tc. JObj [(''tool_call_id'', call_id tc), (''approve'', JBool True),
                      (''headers'', JObj [])])
       (filter is_mcp calls)"

text \<open>
  A reply to a status poll that reports \<^verbatim>\<open>requires_action\<close>, the required action being of
  type \<open>field\<close> and holding \<open>details\<close> in the field of that name; a reply to the submission
  of approvals that accepts it.
\<close>

definition action_reply :: "reply \<Rightarrow> string \<Rightarrow> json \<Rightarrow> bool" where
  "action_reply p field details =
     (case p of Inl e \<Rightarrow> False
      | Inr r \<Rightarrow> status_code r = 200 \<and>
          (case json_body r of
             Some (JObj kvs) \<Rightarrow>
               map_of kvs ''status'' = Some (JStr ''requires_action'') \<and>
               map_of kvs ''required_action'' =
                 Some (JObj [(''type'', JStr field), (field, details)])
           | _ \<Rightarrow> False))"

definition submit_accepted :: "reply \<Rightarrow> bool" where
  "submit_accepted s = (case s of Inl e \<Rightarrow> False | Inr r \<Rightarrow> status_code r = 200)"

section \<open>Auxiliary facts\<close>

lemma bind_io_lift [simp]:
  "bind_io (lift_io r) f w = (case r of Inl e \<Rightarrow> (Inl e, w) | Inr a \<Rightarrow> f a w)"
  by (simp add: bind_io_def lift_io_def split: sum.splits)

lemma bind_io_return [simp]: "bind_io (return_io a) f w = f a w"
  by (simp add: bind_io_def return_io_def)

lemma bind_io_sleep [simp]:
  "bind_io (time_sleep n) f w = f () (w\<lparr>trace := trace w @ [Sleep n]\<rparr>)"
  by (simp add: bind_io_def time_sleep_def)

lemma bind_io_get:
  "pending w = p # rest \<Longrightarrow>
   bind_io (requests_get u h) f w =
     (case p of
        Inl e \<Rightarrow> (Inl e, w\<lparr>pending := rest, trace := trace w @
            [Req \<lparr>meth = GET, target = u, hdrs = h, payload = None, timeout = None\<rparr>]\<rparr>)
      | Inr r \<Rightarrow> f r (w\<lparr>pending := rest, trace := trace w @
            [Req \<lparr>meth = GET, target = u, hdrs = h, payload = None, timeout = None\<rparr>]\<rparr>))"
  by (simp add: bind_io_def requests_get_def send_request_def split: sum.splits)

lemma bind_io_post:
  "pending w = p # rest \<Longrightarrow>
   bind_io (requests_post u h j t) f w =
     (case p of
        Inl e \<Rightarrow> (Inl e, w\<lparr>pending := rest, trace := trace w @
            [Req \<lparr>meth = POST, target = u, hdrs = h, payload = Some j, timeout = t\<rparr>]\<rparr>)
      | Inr r \<Rightarrow> f r (w\<lparr>pending := rest, trace := trace w @
            [Req \<lparr>meth = POST, target = u, hdrs = h, payload = Some j, timeout = t\<rparr>]\<rparr>))"
  by (simp add: bind_io_def requests_post_def send_request_def split: sum.splits)

lemma poll_body_idle:
  assumes "idle_reply p" "pending w = p # rest"
  shows "poll_body ra thread_id run_id h w =
    (Inr Next, w\<lparr>pending := rest,
       trace := trace w @ [Req (status_request (ENDPOINT w) thread_id run_id h), Sleep 1]\<rparr>)"
proof -
  from assms(1) obtain r where p: "p = Inr r"
    by (cases p) (simp_all add: idle_reply_def)
  show ?thesis
  proof (cases "status_code r = 200")
    case False
    then show ?thesis
      by (simp add: poll_body_def bind_io_get [OF assms(2)] p status_request_def return_io_def)
  next
    case True
    with assms(1) p obtain j s where j: "json_body r = Some j" "py_getitem j ''status'' = Inr s"
      and s: "s \<noteq> JStr ''completed''" "s \<noteq> JStr ''requires_action''"
         "s \<noteq> JStr ''failed''" "s \<noteq> JStr ''cancelled''" "s \<noteq> JStr ''expired''"
      by (auto simp: idle_reply_def split: option.splits sum.splits)
    show ?thesis
      by (simp add: poll_body_def bind_io_get [OF assms(2)] p True j s response_json_def
          status_request_def return_io_def)
  qed
qed

lemma poll_idle:
  "\<lbrakk>\<forall>p\<in>set ps. idle_reply p; pending w = ps @ rest\<rbrakk> \<Longrightarrow>
   poll ra (length ps + n) thread_id run_id h w =
   poll ra n thread_id run_id h (w\<lparr>pending := rest,
       trace := trace w @ idle_trace (length ps) (ENDPOINT w) thread_id run_id h\<rparr>)"
proof (induction ps arbitrary: w)
  case Nil
  then show ?case by (cases w) (simp add: idle_trace_def)
next
  case (Cons p ps)
  define w1 where "w1 = w\<lparr>pending := ps @ rest,
       trace := trace w @ [Req (status_request (ENDPOINT w) thread_id run_id h), Sleep 1]\<rparr>"
  have step: "poll_body ra thread_id run_id h w = (Inr Next, w1)"
    unfolding w1_def using Cons.prems by (intro poll_body_idle) auto
  have "poll ra (length (p # ps) + n) thread_id run_id h w
        = poll ra (length ps + n) thread_id run_id h w1"
    by (simp add: step)
  also have "\<dots> = poll ra n thread_id run_id h (w1\<lparr>pending := rest,
       trace := trace w1 @ idle_trace (length ps) (ENDPOINT w1) thread_id run_id h\<rparr>)"
    using Cons.prems by (intro Cons.IH) (auto simp: w1_def)
  also have "w1\<lparr>pending := rest,
       trace := trace w1 @ idle_trace (length ps) (ENDPOINT w1) thread_id run_id h\<rparr>
     = w\<lparr>pending := rest,
       trace := trace w @ idle_trace (length (p # ps)) (ENDPOINT w) thread_id run_id h\<rparr>"
    by (simp add: w1_def idle_trace_def)
  finally show ?case .
qed

lemma run_startedD:
  assumes "run_started get_hdrs w h run_id rest"
  obtains m r j where "py_truthy (AGENT_ID w)" "get_hdrs w = Inr h"
    "pending w = Inr m # Inr r # rest"
    "status_code m \<in> {200, 201}" "status_code r \<in> {200, 201}"
    "json_body r = Some j" "py_getitem j ''id'' = Inr run_id"
proof -
  from assms have ag: "py_truthy (AGENT_ID w)" and hd: "get_hdrs w = Inr h"
    by (simp_all add: run_started_def)
  from assms obtain p q where pd: "pending w = p # q # rest" and p: "accepted p"
    and q: "created q run_id"
    by (cases "pending w"; cases "tl (pending w)") (simp_all add: run_started_def)
  from p obtain m where m: "p = Inr m" "status_code m \<in> {200, 201}"
    by (cases p) (simp_all add: accepted_def)
  from q obtain r where r: "q = Inr r" "status_code r \<in> {200, 201}"
    and jb: "case json_body r of None \<Rightarrow> False | Some j \<Rightarrow> py_getitem j ''id'' = Inr run_id"
    by (cases q) (simp_all add: created_def)
  from jb obtain j where j: "json_body r = Some j" "py_getitem j ''id'' = Inr run_id"
    by (cases "json_body r") simp_all
  show ?thesis
    using that [OF ag hd _ m(2) r(2) j] pd m(1) r(1) by simp
qed

lemma send_message_started:
  assumes "run_started get_hdrs w h run_id rest"
  shows "send_message (create_agent get_hdrs pl) get_hdrs ra thread_id message w =
    (case poll ra max_attempts thread_id run_id h (polling w thread_id message h rest) of
       (Inl e, w') \<Rightarrow> (Inl e, w')
     | (Inr None, w') \<Rightarrow> (Inr (JStr fallback), w')
     | (Inr (Some content), w') \<Rightarrow> (Inr content, w'))"
proof -
  from assms obtain m r j where
    ag: "py_truthy (AGENT_ID w)" and hd: "get_hdrs w = Inr h" and
    pd: "pending w = Inr m # Inr r # rest" and
    m': "status_code m \<in> {200, 201}" and
    r': "status_code r \<in> {200, 201}" and
    j: "json_body r = Some j" "py_getitem j ''id'' = Inr run_id"
    by (rule run_startedD)
  define w1 where "w1 = w\<lparr>pending := Inr r # rest, trace := trace w @
     [Req (message_request (ENDPOINT w) thread_id h message)]\<rparr>"
  have s1: "\<And>f. bind_io (create_agent get_hdrs pl) f w = f (AGENT_ID w) w"
    using ag by (simp add: bind_io_def create_agent_def)
  have s2: "\<And>f. bind_io (\<lambda>w. lift_io (get_hdrs w) w) f w = f h w"
    by (simp add: bind_io_def lift_io_def hd)
  have s3: "\<And>f. bind_io (\<lambda>w. requests_post (messages_url (ENDPOINT w) thread_id) h
                 (JObj [(''role'', JStr ''user''), (''content'', message)]) None w) f w = f m w1"
    by (simp add: bind_io_def requests_post_def send_request_def pd w1_def message_request_def)
  have s4: "\<And>f. bind_io (\<lambda>w'. requests_post (run_url (ENDPOINT w') thread_id) h
                    (JObj [(''assistant_id'', AGENT_ID w)]) None w') f w1
        = f r (polling w thread_id message h rest)"
    by (simp add: bind_io_def requests_post_def send_request_def w1_def polling_def
        run_request_def message_request_def)
  show ?thesis
    unfolding send_message_def
    apply (subst s1)
    apply (subst s2)
    apply (subst s3)
    apply (simp only: m' not_True_eq_False if_False)
    apply (subst s4)
    apply (simp only: r' not_True_eq_False if_False)
    apply (simp add: response_json_def j bind_io_def [of "poll ra max_attempts thread_id run_id h"]
           return_io_def split: prod.splits sum.splits option.splits)
    done
qed

lemma chat_no_message:
  assumes "map_of body ''message'' = None \<or> map_of body ''message'' = Some (JStr [])"
  shows "chat ct sm (Inr (JObj body)) w = ((JObj [(''error'', JStr ''No message provided'')], 400), w)"
  using assms by (auto simp: chat_def chat_try_def error_body_def)

lemma chat_outcome:
  "chat ct sm rq w = ((b, c), w') \<Longrightarrow>
     (is_success_body b \<and> \<not> is_error_body b \<and> c = 200) \<or>
     (is_error_body b \<and> \<not> is_success_body b \<and> (c = 400 \<or> c = 500))"
  by (auto simp: chat_def chat_try_def chat_send_def error_body_def bind_io_def Let_def
      split: sum.splits prod.splits if_splits)

lemma status_polls_append [simp]: "status_polls (xs @ ys) = status_polls xs + status_polls ys"
  by (simp add: status_polls_def)

lemma sleeps_append [simp]: "sleeps (xs @ ys) = sleeps xs @ sleeps ys"
  by (induction xs rule: sleeps.induct) simp_all

lemma submissions_append [simp]: "submissions (xs @ ys) = submissions xs @ submissions ys"
  by (induction xs rule: submissions.induct) simp_all

lemma status_polls_idle_trace [simp]: "status_polls (idle_trace k E t r h) = k"
  by (induction k) (simp_all add: idle_trace_def status_polls_def status_request_def status_url_def)

lemma sleeps_idle_trace [simp]: "sleeps (idle_trace k E t r h) = replicate k 1"
  by (induction k) (simp_all add: idle_trace_def)

lemma submissions_idle_trace [simp]: "submissions (idle_trace k E t r h) = []"
  by (induction k) (simp_all add: idle_trace_def status_request_def)

lemma polling_polled: "polling w thread_id message h rest = polled 0 w thread_id message h run_id rest"
  by (simp add: polling_def polled_def idle_trace_def)

lemma send_message_after_idle:
  assumes st: "run_started get_hdrs w h run_id (ps @ rest)"
    and idle: "\<forall>p\<in>set ps. idle_reply p"
    and len: "length ps + n = max_attempts"
  shows "send_message (create_agent get_hdrs pl) get_hdrs ra thread_id message w =
    (case poll ra n thread_id run_id h (polled (length ps) w thread_id message h run_id rest) of
       (Inl e, w') \<Rightarrow> (Inl e, w')
     | (Inr None, w') \<Rightarrow> (Inr (JStr fallback), w')
     | (Inr (Some content), w') \<Rightarrow> (Inr content, w'))"
proof -
  have "poll ra max_attempts thread_id run_id h (polling w thread_id message h (ps @ rest)) =
        poll ra n thread_id run_id h (polled (length ps) w thread_id message h run_id rest)"
    unfolding len [symmetric]
    by (subst poll_idle [OF idle, of _ rest]) (simp_all add: polling_def polled_def)
  then show ?thesis
    by (simp add: send_message_started [OF st])
qed

lemma nonterminal_idle: "nonterminal_reply p \<Longrightarrow> idle_reply p"
  by (auto simp: nonterminal_reply_def status_reply_def idle_reply_def
      split: sum.splits option.splits)

lemma failed_poll_idle: "failed_poll p \<Longrightarrow> idle_reply p"
  by (auto simp: failed_poll_def idle_reply_def split: sum.splits)

lemma send_message_idle_timeout:
  assumes st: "run_started get_hdrs w h run_id (ps @ rest)"
    and idle: "\<forall>p\<in>set ps. idle_reply p"
    and len: "length ps = 30"
  shows "send_message (create_agent get_hdrs pl) get_hdrs ra thread_id message w =
    (Inr (JStr fallback), polled 30 w thread_id message h run_id rest)"
  using send_message_after_idle [OF st idle, of 0 pl ra thread_id message] len
  by (simp add: max_attempts_def)

lemma status_polls_Nil [simp]: "status_polls [] = 0"
  by (simp add: status_polls_def)

lemma status_polls_Cons [simp]:
  "status_polls (e # tr) = (if is_status_poll e then 1 else 0) + status_polls tr"
  by (simp add: status_polls_def)

lemma is_status_poll_requests [simp]:
  "\<not> is_status_poll (Req (message_request E t h m))"
  "\<not> is_status_poll (Req (run_request E t h a))"
  "\<not> is_status_poll (Req (list_request E t h))"
  "\<not> is_status_poll (Req (submit_request E t r h tas))"
  "is_status_poll (Req (status_request E t r h))"
  by (simp_all add: message_request_def run_request_def list_request_def submit_request_def
      status_request_def messages_url_def status_url_def submit_url_def)

declare is_status_poll.simps [simp del]

lemma polled_counts:
  "status_polls (trace (polled k w t m h r rest)) = status_polls (trace w) + k"
  "sleeps (trace (polled k w t m h r rest)) = sleeps (trace w) @ replicate k 1"
  "pending (polled k w t m h r rest) = rest"
  "current_thread_id (polled k w t m h r rest) = current_thread_id w"
  by (simp_all add: polled_def)

lemma example_started:
  "run_started agent_get_headers (example_world (started_replies @ rest)) example_headers
     (JStr ''run_1'') rest"
  "run_started app_get_auth_headers (example_world (started_replies @ rest)) example_headers
     (JStr ''run_1'') rest"
  by (simp_all add: run_started_def example_world_def started_replies_def json_reply_def
      agent_get_headers_def app_get_auth_headers_def example_headers_def accepted_def created_def)

lemma poll_body_failure:
  assumes "status_reply p s" "failure_status s" "pending w = p # rest"
  shows "poll_body ra thread_id run_id h w =
    (Inr Break, w\<lparr>pending := rest,
       trace := trace w @ [Req (status_request (ENDPOINT w) thread_id run_id h)]\<rparr>)"
proof -
  from assms(1) obtain r j where p: "p = Inr r" and r: "status_code r = 200"
    and j: "json_body r = Some j" "py_getitem j ''status'' = Inr s"
    by (cases p; cases "json_body (projr p)") (auto simp: status_reply_def)
  from assms(2) have s: "s \<noteq> JStr ''completed''" "s \<noteq> JStr ''requires_action''"
    "s = JStr ''failed'' \<or> s = JStr ''cancelled'' \<or> s = JStr ''expired''"
    by (auto simp: failure_status_def)
  show ?thesis
    using s
    by (simp add: poll_body_def bind_io_get [OF assms(3)] p r j response_json_def
        status_request_def return_io_def)
qed

lemma first_assistant_none: "no_assistant msgs \<Longrightarrow> first_assistant msgs = Inr Break"
  by (induction msgs) (auto simp: no_assistant_def bind_e_def split: sum.splits)

lemma first_assistant_found:
  assumes "no_assistant pre" "py_getitem a ''role'' = Inr (JStr ''assistant'')"
  shows "first_assistant (pre @ a # post) =
     (case text_value a of Inl e \<Rightarrow> Inl e | Inr content \<Rightarrow> Inr (Return content))"
  using assms
  by (induction pre) (auto simp: no_assistant_def bind_e_def split: sum.splits)

lemma poll_body_completed:
  assumes "status_reply p (JStr ''completed'')" "pending w = p # q # rest"
    "messages_reply q msgs"
  shows "poll_body ra thread_id run_id h w =
    (case first_assistant msgs of
       Inl e \<Rightarrow> (Inl e, w\<lparr>pending := rest,
         trace := trace w @ [Req (status_request (ENDPOINT w) thread_id run_id h),
                             Req (list_request (ENDPOINT w) thread_id h)]\<rparr>)
     | Inr f \<Rightarrow> (Inr f, w\<lparr>pending := rest,
         trace := trace w @ [Req (status_request (ENDPOINT w) thread_id run_id h),
                             Req (list_request (ENDPOINT w) thread_id h)]\<rparr>))"
proof -
  from assms(1) obtain r j where p: "p = Inr r" and r: "status_code r = 200"
    and j: "json_body r = Some j" "py_getitem j ''status'' = Inr (JStr ''completed'')"
    by (cases p; cases "json_body (projr p)") (auto simp: status_reply_def)
  from assms(3) obtain r' j' where q: "q = Inr r'" and r': "status_code r' = 200"
    and j': "json_body r' = Some j'" "py_getitem j' ''data'' = Inr (JArr msgs)"
    by (cases q; cases "json_body (projr q)") (auto simp: messages_reply_def)
  define w1 where "w1 = w\<lparr>pending := q # rest,
       trace := trace w @ [Req (status_request (ENDPOINT w) thread_id run_id h)]\<rparr>"
  have pw1: "pending w1 = q # rest" by (simp add: w1_def)
  have cb: "completed_branch thread_id h w1 =
    (case first_assistant msgs of
       Inl e \<Rightarrow> (Inl e, w\<lparr>pending := rest,
         trace := trace w @ [Req (status_request (ENDPOINT w) thread_id run_id h),
                             Req (list_request (ENDPOINT w) thread_id h)]\<rparr>)
     | Inr f \<Rightarrow> (Inr f, w\<lparr>pending := rest,
         trace := trace w @ [Req (status_request (ENDPOINT w) thread_id run_id h),
                             Req (list_request (ENDPOINT w) thread_id h)]\<rparr>))"
    apply (simp add: completed_branch_def bind_io_get [OF pw1] q r' j' response_json_def
        list_request_def lift_io_def split: sum.splits)
    apply (simp add: w1_def)
    done
  show ?thesis
    by (simp add: poll_body_def bind_io_get [OF assms(2)] p r j response_json_def
        cb [unfolded w1_def status_request_def] status_request_def split: sum.splits)
qed

lemma pending_polled [simp]: "pending (polled k w t m h r rest) = rest"
  by (simp add: polled_def)

lemma ENDPOINT_polled [simp]: "ENDPOINT (polled k w t m h r rest) = ENDPOINT w"
  by (simp add: polled_def)

lemma polled_rest:
  "(polled k w t m h r rest')\<lparr>pending := rest, trace := tr\<rparr> =
   (polled k w t m h r rest)\<lparr>trace := tr\<rparr>"
  by (simp add: polled_def)

lemma send_message_failure:
  assumes st: "run_started get_hdrs w h run_id (ps @ p # rest)"
    and idle: "\<forall>p\<in>set ps. idle_reply p"
    and len: "length ps < 30"
    and p: "status_reply p s" "failure_status s"
  shows "send_message (create_agent get_hdrs pl) get_hdrs ra thread_id message w =
    (Inr (JStr fallback),
     (polled (length ps) w thread_id message h run_id rest)
       \<lparr>trace := trace (polled (length ps) w thread_id message h run_id rest) @
          [Req (status_request (ENDPOINT w) thread_id run_id h)]\<rparr>)"
proof -
  from len obtain n where n: "length ps + Suc n = max_attempts"
    by (metis add_Suc_right less_imp_Suc_add max_attempts_def)
  have pb: "poll_body ra thread_id run_id h
       (polled (length ps) w thread_id message h run_id (p # rest)) =
     (Inr Break, (polled (length ps) w thread_id message h run_id rest)
       \<lparr>trace := trace (polled (length ps) w thread_id message h run_id rest) @
          [Req (status_request (ENDPOINT w) thread_id run_id h)]\<rparr>)"
    by (subst poll_body_failure [OF p, of _ rest]) (simp_all add: polled_def)
  show ?thesis
    by (simp add: send_message_after_idle [OF st idle n] pb)
qed

lemma send_message_completed:
  assumes st: "run_started get_hdrs w h run_id (ps @ p # q # rest)"
    and idle: "\<forall>p\<in>set ps. idle_reply p"
    and len: "length ps < 30"
    and p: "status_reply p (JStr ''completed'')" and q: "messages_reply q msgs"
  shows "send_message (create_agent get_hdrs pl) get_hdrs ra thread_id message w =
    (case first_assistant msgs of
       Inl e \<Rightarrow> Inl e
     | Inr f \<Rightarrow> (case f of Return content \<Rightarrow> Inr content | _ \<Rightarrow> Inr (JStr fallback)),
     (polled (length ps) w thread_id message h run_id rest)
       \<lparr>trace := trace (polled (length ps) w thread_id message h run_id rest) @
          [Req (status_request (ENDPOINT w) thread_id run_id h),
           Req (list_request (ENDPOINT w) thread_id h)]\<rparr>)"
proof -
  from len obtain n where n: "length ps + Suc n = max_attempts"
    by (metis add_Suc_right less_imp_Suc_add max_attempts_def)
  have nn: "first_assistant msgs \<noteq> Inr Next" for msgs
    by (induction msgs) (auto simp: bind_e_def split: sum.splits)
  have pb: "poll_body ra thread_id run_id h
       (polled (length ps) w thread_id message h run_id (p # q # rest)) =
     (case first_assistant msgs of Inl e \<Rightarrow> Inl e | Inr f \<Rightarrow> Inr f,
      (polled (length ps) w thread_id message h run_id rest)
       \<lparr>trace := trace (polled (length ps) w thread_id message h run_id rest) @
          [Req (status_request (ENDPOINT w) thread_id run_id h),
           Req (list_request (ENDPOINT w) thread_id h)]\<rparr>)"
    by (subst poll_body_completed [OF p _ q, of _ rest])
       (simp_all add: polled_def split: sum.splits)
  show ?thesis
    using nn [of msgs]
    by (simp add: send_message_after_idle [OF st idle n] pb split: sum.splits flow.splits)
qed

lemma poll_step_idle:
  assumes "idle_reply p" "pending w = p # rest"
  shows "poll ra (Suc n) thread_id run_id h w =
    poll ra n thread_id run_id h (w\<lparr>pending := rest,
       trace := trace w @ [Req (status_request (ENDPOINT w) thread_id run_id h), Sleep 1]\<rparr>)"
  by (simp add: poll_body_idle [OF assms])

lemma chat_sends:
  assumes "map_of body ''message'' = Some m" "py_truthy m"
    and "w1 = ensure_thread ct w" "py_truthy (current_thread_id w1)"
    and "sm (current_thread_id w1) m w1 = (r, w2)"
  shows "chat ct sm (Inr (JObj body)) w =
    (case r of
       Inl e \<Rightarrow> ((error_body (str_exn e), 500), w2)
     | Inr v \<Rightarrow>
         if py_truthy v
         then ((JObj [(''response'', v), (''thread_id'', current_thread_id w2)], 200), w2)
         else ((error_body ''Failed to get response from agent'', 500), w2))"
proof (cases "py_truthy (current_thread_id w)")
  case True
  then have eq: "w1 = w" using assms(3) by (simp add: ensure_thread_def)
  from assms(5) have sm: "sm (current_thread_id w) m w = (r, w2)" by (simp add: eq)
  show ?thesis
    using assms(1,2) True sm
    by (simp add: chat_def chat_try_def chat_send_def bind_io_def lift_io_def
        split: sum.splits)
next
  case False
  obtain t w' where ct: "ct w = (t, w')" by (cases "ct w")
  then have eq: "w1 = w'\<lparr>current_thread_id := t\<rparr>"
    using assms(3) False by (simp add: ensure_thread_def)
  from assms(4) have t: "py_truthy t" by (simp add: eq)
  from assms(5) have sm: "sm t m (w'\<lparr>current_thread_id := t\<rparr>) = (r, w2)" by (simp add: eq)
  show ?thesis
    using assms(1,2) False ct t sm
    by (simp add: chat_def chat_try_def chat_send_def bind_io_def lift_io_def Let_def
        split: sum.splits)
qed

lemma ensure_thread_cached [simp]:
  "py_truthy (current_thread_id w) \<Longrightarrow> ensure_thread ct w = w"
  by (simp add: ensure_thread_def)

lemma current_thread_id_polled [simp]:
  "current_thread_id (polled k w t m h r rest) = current_thread_id w"
  by (simp add: polled_def)

lemma fallback_nonempty [simp]: "fallback \<noteq> []"
  by (simp add: fallback_def)

lemma chat_failure:
  assumes m: "map_of body ''message'' = Some m" "py_truthy m"
    and w1: "w1 = ensure_thread ct w" "py_truthy (current_thread_id w1)"
    and st: "run_started gh w1 h run_id (ps @ p # rest)"
    and idle: "\<forall>p\<in>set ps. idle_reply p" and len: "length ps < 30"
    and p: "status_reply p s" "failure_status s"
  shows "fst (chat ct (send_message (create_agent gh pl) gh ra) (Inr (JObj body)) w) =
    (JObj [(''response'', JStr fallback), (''thread_id'', current_thread_id w1)], 200)"
  by (simp add: chat_sends [where sm = "send_message (create_agent gh pl) gh ra",
        OF m w1 send_message_failure [OF st idle len p]])

lemma chat_timeout:
  assumes m: "map_of body ''message'' = Some m" "py_truthy m"
    and w1: "w1 = ensure_thread ct w" "py_truthy (current_thread_id w1)"
    and st: "run_started gh w1 h run_id (ps @ rest)"
    and idle: "\<forall>p\<in>set ps. idle_reply p" and len: "length ps = 30"
  shows "fst (chat ct (send_message (create_agent gh pl) gh ra) (Inr (JObj body)) w) =
    (JObj [(''response'', JStr fallback), (''thread_id'', current_thread_id w1)], 200)"
  by (simp add: chat_sends [where sm = "send_message (create_agent gh pl) gh ra",
        OF m w1 send_message_idle_timeout [OF st idle len]])

lemma example_thread [simp]: "current_thread_id (example_world rs) = JStr ''thread_1''"
  by (simp add: example_world_def)

lemma status_reply_example [simp]: "status_reply (json_reply 200 (status_body s)) (JStr s)"
  by (simp add: status_reply_def json_reply_def status_body_def)

lemma text_value_empty:
  "empty_content a \<Longrightarrow> text_value a = Inl (Exn IndexError ''list index out of range'')"
  by (simp add: empty_content_def text_value_def bind_e_def)

lemma text_value_lacking:
  assumes "lacks_text_value a"
  shows "text_value a = Inl (Exn KeyError (sq ''text'')) \<or>
     text_value a = Inl (Exn KeyError (sq ''value''))"
proof -
  from assms obtain c0 cs where c: "py_getitem a ''content'' = Inr (JArr (JObj c0 # cs))"
    and t: "map_of c0 ''text'' = None \<or>
      (\<exists>kvs. map_of c0 ''text'' = Some (JObj kvs) \<and> map_of kvs ''value'' = None)"
    unfolding lacks_text_value_def
    by (auto split: sum.splits json.splits list.splits option.splits)
  from t show ?thesis
  proof
    assume "map_of c0 ''text'' = None"
    then show ?thesis by (simp add: text_value_def bind_e_def c)
  next
    assume "\<exists>kvs. map_of c0 ''text'' = Some (JObj kvs) \<and> map_of kvs ''value'' = None"
    then show ?thesis by (auto simp: text_value_def bind_e_def c)
  qed
qed

lemma send_message_raises:
  assumes st: "run_started gh w h run_id (ps @ p # q # rest)"
    and idle: "\<forall>p\<in>set ps. idle_reply p" and len: "length ps < 30"
    and p: "status_reply p (JStr ''completed'')" and q: "messages_reply q (pre @ a # post)"
    and pre: "no_assistant pre" and a: "py_getitem a ''role'' = Inr (JStr ''assistant'')"
    and e: "text_value a = Inl e"
  shows "send_message (create_agent gh pl) gh ra thread_id message w =
    (Inl e, (polled (length ps) w thread_id message h run_id rest)
       \<lparr>trace := trace (polled (length ps) w thread_id message h run_id rest) @
          [Req (status_request (ENDPOINT w) thread_id run_id h),
           Req (list_request (ENDPOINT w) thread_id h)]\<rparr>)"
  by (simp add: send_message_completed [OF st idle len p q] first_assistant_found [OF pre a] e)

lemma send_message_answers:
  assumes st: "run_started gh w h run_id (ps @ p # q # rest)"
    and idle: "\<forall>p\<in>set ps. idle_reply p" and len: "length ps < 30"
    and p: "status_reply p (JStr ''completed'')" and q: "messages_reply q (pre @ a # post)"
    and pre: "no_assistant pre" and a: "py_getitem a ''role'' = Inr (JStr ''assistant'')"
    and e: "text_value a = Inr content"
  shows "send_message (create_agent gh pl) gh ra thread_id message w =
    (Inr content, (polled (length ps) w thread_id message h run_id rest)
       \<lparr>trace := trace (polled (length ps) w thread_id message h run_id rest) @
          [Req (status_request (ENDPOINT w) thread_id run_id h),
           Req (list_request (ENDPOINT w) thread_id h)]\<rparr>)"
  by (simp add: send_message_completed [OF st idle len p q] first_assistant_found [OF pre a] e)

lemma chat_raises:
  assumes m: "map_of body ''message'' = Some m" "py_truthy m"
    and w1: "w1 = ensure_thread ct w" "py_truthy (current_thread_id w1)"
    and st: "run_started gh w1 h run_id (ps @ p # q # rest)"
    and idle: "\<forall>p\<in>set ps. idle_reply p" and len: "length ps < 30"
    and p: "status_reply p (JStr ''completed'')" and q: "messages_reply q (pre @ a # post)"
    and pre: "no_assistant pre" and a: "py_getitem a ''role'' = Inr (JStr ''assistant'')"
    and e: "text_value a = Inl e"
  shows "fst (chat ct (send_message (create_agent gh pl) gh ra) (Inr (JObj body)) w) =
    (JObj [(''error'', JStr (str_exn e))], 500)"
  by (simp add: chat_sends [where sm = "send_message (create_agent gh pl) gh ra",
        OF m w1 send_message_raises [OF st idle len p q pre a e]] error_body_def)

lemma chat_outcome_message:
  assumes "map_of body ''message'' = Some m" "py_truthy m"
    and "chat ct sm (Inr (JObj body)) w = ((b, c), w')"
  shows "(is_success_body b \<and> \<not> is_error_body b \<and> c = 200) \<or>
         (is_error_body b \<and> \<not> is_success_body b \<and> c = 500)"
  using assms
  by (auto simp: chat_def chat_try_def chat_send_def error_body_def bind_io_def lift_io_def Let_def
      split: sum.splits prod.splits if_splits)

lemma thread_posts_append [simp]:
  "thread_posts E (xs @ ys) = thread_posts E xs + thread_posts E ys"
  by (simp add: thread_posts_def)

lemma ts_bind:
  assumes "thread_state (snd (m w)) = s"
    and "\<And>a w'. thread_state w' = s \<Longrightarrow> thread_state (snd (f a w')) = s"
  shows "thread_state (snd (bind_io m f w)) = s"
proof (cases "m w")
  case (Pair r w')
  then show ?thesis
    using assms(1) assms(2) [of w'] by (cases r) (simp_all add: bind_io_def)
qed

lemma ts_lift [simp]: "thread_state (snd (lift_io r w)) = thread_state w"
  by (cases r) (simp_all add: lift_io_def)

lemma ts_return [simp]: "thread_state (snd (return_io a w)) = thread_state w"
  by (simp add: return_io_def)

lemma ts_sleep [simp]: "thread_state (snd (time_sleep n w)) = thread_state w"
  by (simp add: time_sleep_def thread_state_def thread_posts_def)

lemma ts_get [simp]: "thread_state (snd (requests_get u h w)) = thread_state w"
  by (simp add: requests_get_def send_request_def thread_state_def thread_posts_def
      split: list.splits)

lemma ts_post:
  "u \<noteq> threads_url (ENDPOINT w) \<Longrightarrow> thread_state (snd (requests_post u h j t w)) = thread_state w"
  by (simp add: requests_post_def send_request_def thread_state_def thread_posts_def
      split: list.splits)

lemma if_io: "(if c then f else g) (w :: world) = (if c then f w else g w)"
  by simp

lemma ts_completed: "thread_state (snd (completed_branch thread_id h w)) = thread_state w"
  unfolding completed_branch_def
  by (intro ts_bind conjI impI allI | simp add: if_io del: bind_io_lift bind_io_return bind_io_sleep)+

lemma ts_post_submit [simp]:
  "thread_state (snd (requests_post (submit_url E thread_id run_id) h j t w)) = thread_state w"
  by (rule ts_post) (simp add: submit_url_def threads_url_def)

lemma ts_post_messages [simp]:
  "thread_state (snd (requests_post (messages_url E thread_id) h j t w)) = thread_state w"
  by (rule ts_post) (simp add: messages_url_def threads_url_def)

lemma ts_post_run [simp]:
  "thread_state (snd (requests_post (run_url E thread_id) h j t w)) = thread_state w"
  by (rule ts_post) (simp add: run_url_def threads_url_def)

lemma ts_post_assistants [simp]:
  "thread_state (snd (requests_post (assistants_url (ENDPOINT w)) h j t w)) = thread_state w"
  by (rule ts_post) (simp add: assistants_url_def threads_url_def)

lemma ts_agent_requires_action:
  "thread_state (snd (agent_requires_action thread_id run_id h run_data w)) = thread_state w"
  unfolding agent_requires_action_def Let_def
  by (intro ts_bind conjI impI allI | simp add: if_io del: bind_io_lift bind_io_return bind_io_sleep)+

lemma ts_app_requires_action:
  "thread_state (snd (app_requires_action thread_id run_id h run_data w)) = thread_state w"
  unfolding app_requires_action_def
  by (intro ts_bind conjI impI allI | simp add: if_io del: bind_io_lift bind_io_return bind_io_sleep)+


lemma ts_poll_body:
  assumes "\<And>run_data w. thread_state (snd (ra thread_id run_id h run_data w)) = thread_state w"
  shows "thread_state (snd (poll_body ra thread_id run_id h w)) = thread_state w"
  unfolding poll_body_def
  by (intro ts_bind conjI impI allI
      | simp add: if_io assms ts_completed del: bind_io_lift bind_io_return bind_io_sleep)+

lemma ts_poll:
  assumes "\<And>run_data w. thread_state (snd (ra thread_id run_id h run_data w)) = thread_state w"
  shows "thread_state (snd (poll ra n thread_id run_id h w)) = thread_state w"
proof (induction n arbitrary: w)
  case 0
  show ?case by simp
next
  case (Suc n)
  obtain r w' where pb: "poll_body ra thread_id run_id h w = (r, w')"
    by (cases "poll_body ra thread_id run_id h w")
  have w': "thread_state w' = thread_state w"
    using ts_poll_body [of ra thread_id run_id h w, OF assms] by (simp add: pb)
  show ?case
    using w' Suc.IH [of w']
    by (simp add: pb split: sum.splits flow.splits)
qed

lemma ts_create_agent:
  "thread_state (snd (create_agent gh pl w)) = thread_state w"
proof -
  have upd: "thread_state (w'\<lparr>AGENT_ID := i\<rparr>) = thread_state w'" for w' i
    by (simp add: thread_state_def)
  have post: "thread_state (snd (requests_post (assistants_url (ENDPOINT w)) h j t w')) =
      thread_state w" if "thread_state w' = thread_state w" for h j t w'
  proof -
    from that have "ENDPOINT w' = ENDPOINT w" by (simp add: thread_state_def)
    then show ?thesis
      using ts_post_assistants [of w' h j t] that by simp
  qed
  show ?thesis
    unfolding create_agent_def
    by (intro ts_bind conjI impI allI
        | simp add: if_io upd post del: bind_io_lift bind_io_return bind_io_sleep)+
qed

lemma ts_send_message:
  assumes "\<And>run_id h run_data w.
     thread_state (snd (ra thread_id run_id h run_data w)) = thread_state w"
  shows "thread_state (snd (send_message (create_agent gh pl) gh ra thread_id message w)) =
     thread_state w"
  unfolding send_message_def
  by (intro ts_bind conjI impI allI
      | simp add: if_io ts_create_agent ts_poll assms return_io_def
          del: bind_io_lift bind_io_return bind_io_sleep split: option.splits)+


lemma ts_fields:
  assumes "thread_state w' = thread_state w"
  shows "current_thread_id w' = current_thread_id w" "ENDPOINT w' = ENDPOINT w"
    "thread_posts (ENDPOINT w) (trace w') = thread_posts (ENDPOINT w) (trace w)"
proof -
  from assms have 1: "fst (thread_state w') = fst (thread_state w)"
    and 2: "fst (snd (thread_state w')) = fst (snd (thread_state w))"
    and 3: "snd (snd (thread_state w')) = snd (snd (thread_state w))"
    by (rule arg_cong)+
  from 1 show "current_thread_id w' = current_thread_id w"
    by (simp only: thread_state_def fst_conv)
  from 2 show b: "ENDPOINT w' = ENDPOINT w"
    by (simp only: thread_state_def fst_conv snd_conv)
  from 3 have "thread_posts (ENDPOINT w') (trace w') = thread_posts (ENDPOINT w) (trace w)"
    by (simp only: thread_state_def fst_conv snd_conv)
  then show "thread_posts (ENDPOINT w) (trace w') = thread_posts (ENDPOINT w) (trace w)"
    by (simp only: b)
qed

lemma ts_chat_send:
  assumes "\<And>t m w. thread_state (snd (sm t m w)) = thread_state w"
  shows "thread_state (snd (chat_send sm message w)) = thread_state w"
  unfolding chat_send_def
  by (intro ts_bind conjI impI allI | simp add: if_io assms)+

lemma chat_try_cached:
  assumes c: "py_truthy (current_thread_id w)"
  shows "chat_try ct sm rq w =
    (case rq of Inl e \<Rightarrow> (Inl e, w)
     | Inr data \<Rightarrow>
         (case py_get data ''message'' (JStr []) of Inl e \<Rightarrow> (Inl e, w)
          | Inr message \<Rightarrow>
              if \<not> py_truthy message then (Inr (error_body ''No message provided'', 400), w)
              else chat_send sm message w))"
proof (cases rq)
  case (Inl e)
  then show ?thesis by (simp add: chat_try_def bind_io_def lift_io_def)
next
  case (Inr data)
  show ?thesis
  proof (cases "py_get data ''message'' (JStr [])")
    case (Inl e)
    then show ?thesis by (simp add: Inr chat_try_def bind_io_def lift_io_def)
  next
    case m: (Inr message)
    show ?thesis
      by (simp add: Inr m c chat_try_def bind_io_def lift_io_def)
  qed
qed

lemma ts_chat:
  assumes sm: "\<And>t m w. thread_state (snd (sm t m w)) = thread_state w"
    and c: "py_truthy (current_thread_id w)"
  shows "thread_state (snd (chat ct sm rq w)) = thread_state w"
proof -
  have t: "thread_state (snd (chat_try ct sm rq w)) = thread_state w"
  proof (cases rq)
    case (Inl e)
    then show ?thesis by (simp add: chat_try_cached [OF c])
  next
    case (Inr data)
    show ?thesis
    proof (cases "py_get data ''message'' (JStr [])")
      case (Inl e)
      then show ?thesis by (simp add: Inr chat_try_cached [OF c])
    next
      case m: (Inr message)
      show ?thesis
        using ts_chat_send [of sm message w, OF sm]
        by (simp add: Inr m chat_try_cached [OF c])
    qed
  qed
  obtain r w' where ct: "chat_try ct sm rq w = (r, w')"
    by (cases "chat_try ct sm rq w")
  from t have "thread_state w' = thread_state w" by (simp add: ct)
  then show ?thesis
    by (cases r) (simp_all add: chat_def ct)
qed

lemma chat_cached_independent:
  assumes "py_truthy (current_thread_id w)"
  shows "chat ct sm rq w = chat ct' sm rq w"
  by (simp only: chat_def chat_try_cached [OF assms])

lemma ts_serve:
  assumes sm: "\<And>t m w. thread_state (snd (sm t m w)) = thread_state w"
    and c: "py_truthy (current_thread_id w)"
  shows "thread_state (serve (chat ct sm) rqs w) = thread_state w"
  using c
proof (induction rqs arbitrary: w)
  case Nil
  show ?case by simp
next
  case (Cons rq rqs)
  have 1: "thread_state (snd (chat ct sm rq w)) = thread_state w"
    by (rule ts_chat [of sm, OF sm Cons.prems])
  have "py_truthy (current_thread_id (snd (chat ct sm rq w)))"
    using Cons.prems by (simp only: ts_fields(1) [OF 1])
  from Cons.IH [OF this] 1 show ?case by simp
qed



lemma ts_agent_send_message:
  "thread_state (snd (agent_send_message t m w)) = thread_state w"
  unfolding agent_send_message_def agent_create_agent_def
  by (rule ts_send_message [of agent_requires_action, OF ts_agent_requires_action])

lemma ts_app_send_message:
  "thread_state (snd (app_send_message t m w)) = thread_state w"
  unfolding app_send_message_def app_create_agent_def
  by (rule ts_send_message [of app_requires_action, OF ts_app_requires_action])



lemma create_thread_posts:
  "ENDPOINT (snd (create_thread gh w)) = ENDPOINT w \<and>
   thread_posts (ENDPOINT w) (trace (snd (create_thread gh w)))
     \<le> thread_posts (ENDPOINT w) (trace w) + 1"
proof (cases "gh w")
  case (Inl e)
  then show ?thesis by (simp add: create_thread_def bind_io_def lift_io_def)
next
  case (Inr h)
  let ?rq = "\<lparr>meth = POST, target = threads_url (ENDPOINT w), hdrs = h,
      payload = Some (JObj []), timeout = None\<rparr>"
  obtain r w1 where sr: "send_request ?rq w = (r, w1)" by (cases "send_request ?rq w")
  then have w1: "ENDPOINT w1 = ENDPOINT w" "trace w1 = trace w @ [Req ?rq]"
    by (auto simp: send_request_def split: list.splits)
  show ?thesis
  proof (cases r)
    case (Inl e)
    then show ?thesis
      using w1 by (simp add: create_thread_def bind_io_def lift_io_def Inr requests_post_def sr
          thread_posts_def)
  next
    case r: (Inr resp)
    show ?thesis
      using w1
      by (simp add: create_thread_def bind_io_def lift_io_def return_io_def Inr
          requests_post_def sr r thread_posts_def split: sum.splits)
  qed
qed


lemma chat_posts:
  assumes sm: "\<And>t m w. thread_state (snd (sm t m w)) = thread_state w"
  shows "thread_posts (ENDPOINT w) (trace (snd (chat (create_thread gh) sm rq w)))
     \<le> thread_posts (ENDPOINT w) (trace w) + 1"
proof (cases "py_truthy (current_thread_id w)")
  case True
  from ts_fields(3) [OF ts_chat [of sm, OF sm True]] show ?thesis by simp
next
  case False
  obtain t w1 where ct: "create_thread gh w = (t, w1)" by (cases "create_thread gh w")
  let ?w2 = "w1\<lparr>current_thread_id := t\<rparr>"
  from create_thread_posts [of gh w] have e: "ENDPOINT w1 = ENDPOINT w"
    and p: "thread_posts (ENDPOINT w) (trace w1) \<le> thread_posts (ENDPOINT w) (trace w) + 1"
    by (simp_all add: ct)
  have s: "thread_posts (ENDPOINT w) (trace w3) = thread_posts (ENDPOINT w) (trace w1)"
    if "chat_send sm m ?w2 = (r, w3)" for m r w3
    using ts_fields(3) [OF ts_chat_send [of sm m ?w2, OF sm]] e by (simp add: that)
  show ?thesis
  proof (cases rq)
    case (Inl e)
    then show ?thesis by (simp add: chat_def chat_try_def bind_io_def lift_io_def)
  next
    case (Inr data)
    show ?thesis
    proof (cases "py_get data ''message'' (JStr [])")
      case (Inl e)
      then show ?thesis by (simp add: Inr chat_def chat_try_def bind_io_def lift_io_def)
    next
      case m: (Inr message)
      show ?thesis
      proof (cases "py_truthy message \<and> py_truthy t")
        case False
        then show ?thesis
          using p \<open>\<not> py_truthy (current_thread_id w)\<close>
          by (auto simp: Inr m chat_def chat_try_def bind_io_def lift_io_def ct Let_def)
      next
        case True
        obtain r w3 where cs: "chat_send sm message ?w2 = (r, w3)"
          by (cases "chat_send sm message ?w2")
        show ?thesis
          using True p s [OF cs] \<open>\<not> py_truthy (current_thread_id w)\<close>
          by (cases r)
            (simp_all add: Inr m chat_def chat_try_def bind_io_def lift_io_def ct Let_def cs)
      qed
    qed
  qed
qed


section \<open>The claims\<close>

text \<open>
  C8. A request to \<^verbatim>\<open>POST /chat\<close> whose JSON body has no \<^verbatim>\<open>message\<close>, or has the
  empty string as its message, is answered with status 400 and the body
  \<^verbatim>\<open>{"error": "No message provided"}\<close>; the world is left as it was: no thread is
  created, no run is started, no request is sent at all. This holds for the handler of
  \<^verbatim>\<open>agent.py\<close> and for that of \<^verbatim>\<open>app.py\<close>.
\<close>

theorem chat_rejects_missing_message:
  assumes "map_of body ''message'' = None \<or> map_of body ''message'' = Some (JStr [])"
  shows "agent_chat (Inr (JObj body)) w =
           ((JObj [(''error'', JStr ''No message provided'')], 400), w) \<and>
         app_chat (Inr (JObj body)) w =
           ((JObj [(''error'', JStr ''No message provided'')], 400), w)"
  using assms by (simp add: agent_chat_def app_chat_def chat_no_message)

theorem chat_rejects_missing_message_witness:
  "(map_of [] ''message'' = None \<or> map_of [] ''message'' = Some (JStr [])) \<and>
   agent_chat (Inr (JObj [])) (fresh_world []) =
     ((JObj [(''error'', JStr ''No message provided'')], 400), fresh_world []) \<and>
   app_chat (Inr (JObj [(''message'', JStr [])])) (fresh_world []) =
     ((JObj [(''error'', JStr ''No message provided'')], 400), fresh_world [])"
  using chat_rejects_missing_message [of "[]" "fresh_world []"]
    chat_rejects_missing_message [of "[(''message'', JStr [])]" "fresh_world []"]
  by simp

text \<open>
  C3. When the service accepts the message, creates the run, and then answers 30 polls in
  a row with a non-terminal status (\<^verbatim>\<open>in_progress\<close> or \<^verbatim>\<open>queued\<close>), \<^verbatim>\<open>send_message\<close>
  returns, and what it returns is the fixed fallback string. The world it ends in is that
  of 30 polls each followed by a sleep of one time unit: exactly 30 requests for the run
  status were added to the trace, 30 sleeps of length 1, and the replies after the 30th
  are left unread. This holds for \<^verbatim>\<open>agent.py\<close> and for \<^verbatim>\<open>app.py\<close>.
\<close>

theorem thirty_nonterminal_polls_time_out:
  assumes "length ps = 30" and "\<forall>p\<in>set ps. nonterminal_reply p"
  shows "(run_started agent_get_headers w h run_id (ps @ rest) \<longrightarrow>
            agent_send_message thread_id message w =
              (Inr (JStr fallback), polled 30 w thread_id message h run_id rest)) \<and>
         (run_started app_get_auth_headers w h run_id (ps @ rest) \<longrightarrow>
            app_send_message thread_id message w =
              (Inr (JStr fallback), polled 30 w thread_id message h run_id rest)) \<and>
         status_polls (trace (polled 30 w thread_id message h run_id rest)) =
           status_polls (trace w) + 30 \<and>
         sleeps (trace (polled 30 w thread_id message h run_id rest)) =
           sleeps (trace w) @ replicate 30 1 \<and>
         pending (polled 30 w thread_id message h run_id rest) = rest"
proof -
  have idle: "\<forall>p\<in>set ps. idle_reply p"
    using assms(2) by (blast intro: nonterminal_idle)
  show ?thesis
    using assms(1) idle
    by (simp add: agent_send_message_def app_send_message_def agent_create_agent_def
        app_create_agent_def send_message_idle_timeout polled_counts)
qed

theorem thirty_nonterminal_polls_time_out_witness:
  "length (replicate 30 (json_reply 200 (status_body ''in_progress''))) = 30 \<and>
   list_all nonterminal_reply (replicate 30 (json_reply 200 (status_body ''in_progress''))) \<and>
   run_started agent_get_headers
     (example_world (started_replies @ replicate 30 (json_reply 200 (status_body ''in_progress'')) @ []))
     example_headers (JStr ''run_1'') (replicate 30 (json_reply 200 (status_body ''in_progress'')) @ []) \<and>
   agent_send_message (JStr ''thread_1'') (JStr ''hello'')
     (example_world (started_replies @ replicate 30 (json_reply 200 (status_body ''in_progress'')) @ []))
   = (Inr (JStr fallback),
      polled 30 (example_world (started_replies @ replicate 30 (json_reply 200 (status_body ''in_progress'')) @ []))
        (JStr ''thread_1'') (JStr ''hello'') example_headers (JStr ''run_1'') [])"
proof -
  have a: "length (replicate 30 (json_reply 200 (status_body ''in_progress''))) = 30"
    by simp
  have b: "\<forall>p\<in>set (replicate 30 (json_reply 200 (status_body ''in_progress''))). nonterminal_reply p"
    by (simp add: nonterminal_reply_def status_reply_def json_reply_def status_body_def)
  have b': "list_all nonterminal_reply (replicate 30 (json_reply 200 (status_body ''in_progress'')))"
    using b by (simp only: list_all_iff)
  show ?thesis
    using thirty_nonterminal_polls_time_out [OF a b,
        of "example_world (started_replies @ replicate 30 (json_reply 200 (status_body ''in_progress'')) @ [])"
           example_headers "JStr ''run_1''" "[]" "JStr ''thread_1''" "JStr ''hello''"]
      a b' example_started(1) [of "replicate 30 (json_reply 200 (status_body ''in_progress'')) @ []"]
    by blast
qed


text \<open>
  Claim C9.  A status poll that is answered with an HTTP status other than 200 takes no
  branch of the loop body: the attempt is used up, one second is slept, and the loop goes
  on with one attempt less; nothing is raised and the loop is not left.  So a status
  endpoint that answers all thirty polls of a started run with such a status makes
  \<^verbatim>\<open>send_message\<close> end by exhausting its attempts and return the fallback string, in
  \<^verbatim>\<open>agent.py\<close> and in \<^verbatim>\<open>app.py\<close> alike.
\<close>

theorem non_200_poll_consumes_attempt:
  "(failed_poll p \<and> pending w = p # rest \<longrightarrow>
      poll agent_requires_action (Suc n) thread_id run_id h w =
        poll agent_requires_action n thread_id run_id h
          (w\<lparr>pending := rest, trace := trace w @
             [Req (status_request (ENDPOINT w) thread_id run_id h), Sleep 1]\<rparr>) \<and>
      poll app_requires_action (Suc n) thread_id run_id h w =
        poll app_requires_action n thread_id run_id h
          (w\<lparr>pending := rest, trace := trace w @
             [Req (status_request (ENDPOINT w) thread_id run_id h), Sleep 1]\<rparr>)) \<and>
   (length ps = 30 \<and> (\<forall>p\<in>set ps. failed_poll p) \<longrightarrow>
      (run_started agent_get_headers w h run_id (ps @ rest) \<longrightarrow>
         agent_send_message thread_id message w =
           (Inr (JStr fallback), polled 30 w thread_id message h run_id rest)) \<and>
      (run_started app_get_auth_headers w h run_id (ps @ rest) \<longrightarrow>
         app_send_message thread_id message w =
           (Inr (JStr fallback), polled 30 w thread_id message h run_id rest)))"
proof -
  have one: "poll ra (Suc n) thread_id run_id h w =
        poll ra n thread_id run_id h
          (w\<lparr>pending := rest, trace := trace w @
             [Req (status_request (ENDPOINT w) thread_id run_id h), Sleep 1]\<rparr>)"
    if "failed_poll p" "pending w = p # rest" for ra
    using poll_step_idle [OF failed_poll_idle [OF that(1)] that(2)] .
  have idle: "\<forall>p\<in>set ps. idle_reply p" if "\<forall>p\<in>set ps. failed_poll p"
    using that by (blast intro: failed_poll_idle)
  have all: "send_message (create_agent gh pl) gh ra thread_id message w =
           (Inr (JStr fallback), polled 30 w thread_id message h run_id rest)"
    if "length ps = 30" "\<forall>p\<in>set ps. failed_poll p" "run_started gh w h run_id (ps @ rest)"
    for gh pl ra
    using send_message_idle_timeout [OF that(3) idle [OF that(2)] that(1)] .
  show ?thesis
    unfolding agent_send_message_def app_send_message_def
      agent_create_agent_def app_create_agent_def
    using one all by blast
qed

theorem non_200_poll_consumes_attempt_witness:
  "failed_poll (plain_reply 503) \<and>
   pending (example_world [plain_reply 503]) = plain_reply 503 # [] \<and>
   poll agent_requires_action (Suc 29) (JStr ''thread_1'') (JStr ''run_1'') example_headers
      (example_world [plain_reply 503]) =
     poll agent_requires_action 29 (JStr ''thread_1'') (JStr ''run_1'') example_headers
       ((example_world [plain_reply 503])\<lparr>pending := [], trace := trace (example_world [plain_reply 503]) @
          [Req (status_request (ENDPOINT (example_world [plain_reply 503]))
                  (JStr ''thread_1'') (JStr ''run_1'') example_headers), Sleep 1]\<rparr>) \<and>
   length (replicate 30 (plain_reply 503)) = 30 \<and>
   list_all failed_poll (replicate 30 (plain_reply 503)) \<and>
   run_started app_get_auth_headers
     (example_world (started_replies @ replicate 30 (plain_reply 503) @ []))
     example_headers (JStr ''run_1'') (replicate 30 (plain_reply 503) @ []) \<and>
   app_send_message (JStr ''thread_1'') (JStr ''hello'')
     (example_world (started_replies @ replicate 30 (plain_reply 503) @ []))
   = (Inr (JStr fallback),
      polled 30 (example_world (started_replies @ replicate 30 (plain_reply 503) @ []))
        (JStr ''thread_1'') (JStr ''hello'') example_headers (JStr ''run_1'') [])"
proof -
  have a: "failed_poll (plain_reply 503)"
    by (simp add: failed_poll_def plain_reply_def)
  have b: "pending (example_world [plain_reply 503]) = plain_reply 503 # []"
    by (simp add: example_world_def)
  have c: "length (replicate 30 (plain_reply 503)) = 30" by simp
  have d: "\<forall>p\<in>set (replicate 30 (plain_reply 503)). failed_poll p"
    using a by simp
  have d': "list_all failed_poll (replicate 30 (plain_reply 503))"
    using d by (simp only: list_all_iff)
  show ?thesis
    using non_200_poll_consumes_attempt [of "plain_reply 503" "example_world [plain_reply 503]" "[]"
        29 "JStr ''thread_1''" "JStr ''run_1''" example_headers "replicate 30 (plain_reply 503)"]
      non_200_poll_consumes_attempt [of "plain_reply 503"
        "example_world (started_replies @ replicate 30 (plain_reply 503) @ [])" "[]"
        29 "JStr ''thread_1''" "JStr ''run_1''" example_headers "replicate 30 (plain_reply 503)"
        "JStr ''hello''"]
      a b c d d' example_started(2) [of "replicate 30 (plain_reply 503) @ []"]
    by blast
qed


text \<open>
  Claim C5.  A started run that, after fewer than thirty polls that took no branch, is
  reported \<^verbatim>\<open>failed\<close>, \<^verbatim>\<open>cancelled\<close> or \<^verbatim>\<open>expired\<close>, or is reported \<^verbatim>\<open>completed\<close> with a
  message list that holds no message of role \<^verbatim>\<open>assistant\<close>, makes \<^verbatim>\<open>send_message\<close> return
  the fixed fallback string as an ordinary value: no exception is raised.
\<close>

theorem failed_or_unanswered_run_gives_fallback:
  assumes "\<forall>p\<in>set ps. idle_reply p" and "length ps < 30"
  shows
   "(status_reply p s \<and> failure_status s \<longrightarrow>
       (run_started agent_get_headers w h run_id (ps @ p # rest) \<longrightarrow>
          fst (agent_send_message thread_id message w) = Inr (JStr fallback)) \<and>
       (run_started app_get_auth_headers w h run_id (ps @ p # rest) \<longrightarrow>
          fst (app_send_message thread_id message w) = Inr (JStr fallback))) \<and>
    (status_reply p (JStr ''completed'') \<and> messages_reply q msgs \<and> no_assistant msgs \<longrightarrow>
       (run_started agent_get_headers w h run_id (ps @ p # q # rest) \<longrightarrow>
          fst (agent_send_message thread_id message w) = Inr (JStr fallback)) \<and>
       (run_started app_get_auth_headers w h run_id (ps @ p # q # rest) \<longrightarrow>
          fst (app_send_message thread_id message w) = Inr (JStr fallback)))"
  using assms
  by (auto simp: agent_send_message_def app_send_message_def agent_create_agent_def
      app_create_agent_def send_message_failure send_message_completed first_assistant_none)


theorem failed_or_unanswered_run_gives_fallback_witness:
  "list_all idle_reply [json_reply 200 (status_body ''queued'')] \<and>
   length [json_reply 200 (status_body ''queued'')] < 30 \<and>
   status_reply (json_reply 200 (status_body ''failed'')) (JStr ''failed'') \<and>
   failure_status (JStr ''failed'') \<and>
   run_started agent_get_headers
     (example_world (started_replies @ [json_reply 200 (status_body ''queued'')] @
        json_reply 200 (status_body ''failed'') # []))
     example_headers (JStr ''run_1'')
     ([json_reply 200 (status_body ''queued'')] @ json_reply 200 (status_body ''failed'') # []) \<and>
   fst (agent_send_message (JStr ''thread_1'') (JStr ''hello'')
     (example_world (started_replies @ [json_reply 200 (status_body ''queued'')] @
        json_reply 200 (status_body ''failed'') # []))) = Inr (JStr fallback) \<and>
   status_reply (json_reply 200 (status_body ''completed'')) (JStr ''completed'') \<and>
   messages_reply
     (json_reply 200 (JObj [(''data'', JArr [JObj [(''role'', JStr ''user'')]])]))
     [JObj [(''role'', JStr ''user'')]] \<and>
   no_assistant [JObj [(''role'', JStr ''user'')]] \<and>
   run_started app_get_auth_headers
     (example_world (started_replies @ [json_reply 200 (status_body ''queued'')] @
        json_reply 200 (status_body ''completed'') #
        json_reply 200 (JObj [(''data'', JArr [JObj [(''role'', JStr ''user'')]])]) # []))
     example_headers (JStr ''run_1'')
     ([json_reply 200 (status_body ''queued'')] @ json_reply 200 (status_body ''completed'') #
        json_reply 200 (JObj [(''data'', JArr [JObj [(''role'', JStr ''user'')]])]) # []) \<and>
   fst (app_send_message (JStr ''thread_1'') (JStr ''hello'')
     (example_world (started_replies @ [json_reply 200 (status_body ''queued'')] @
        json_reply 200 (status_body ''completed'') #
        json_reply 200 (JObj [(''data'', JArr [JObj [(''role'', JStr ''user'')]])]) # [])))
     = Inr (JStr fallback)"
proof -
  have a: "\<forall>p\<in>set [json_reply 200 (status_body ''queued'')]. idle_reply p"
    by (simp add: idle_reply_def json_reply_def status_body_def)
  have b: "length [json_reply 200 (status_body ''queued'')] < 30" by simp
  have c: "status_reply (json_reply 200 (status_body ''failed'')) (JStr ''failed'')"
    by (simp add: status_reply_def json_reply_def status_body_def)
  have d: "failure_status (JStr ''failed'')" by (simp add: failure_status_def)
  have e: "status_reply (json_reply 200 (status_body ''completed'')) (JStr ''completed'')"
    by (simp add: status_reply_def json_reply_def status_body_def)
  have f: "messages_reply
     (json_reply 200 (JObj [(''data'', JArr [JObj [(''role'', JStr ''user'')]])]))
     [JObj [(''role'', JStr ''user'')]]"
    by (simp add: messages_reply_def json_reply_def)
  have g: "no_assistant [JObj [(''role'', JStr ''user'')]]"
    by (simp add: no_assistant_def)
  have st1: "run_started agent_get_headers
     (example_world (started_replies @ [json_reply 200 (status_body ''queued'')] @
        json_reply 200 (status_body ''failed'') # []))
     example_headers (JStr ''run_1'')
     ([json_reply 200 (status_body ''queued'')] @ json_reply 200 (status_body ''failed'') # [])"
    by (rule example_started(1))
  have st2: "run_started app_get_auth_headers
     (example_world (started_replies @ [json_reply 200 (status_body ''queued'')] @
        json_reply 200 (status_body ''completed'') #
        json_reply 200 (JObj [(''data'', JArr [JObj [(''role'', JStr ''user'')]])]) # []))
     example_headers (JStr ''run_1'')
     ([json_reply 200 (status_body ''queued'')] @ json_reply 200 (status_body ''completed'') #
        json_reply 200 (JObj [(''data'', JArr [JObj [(''role'', JStr ''user'')]])]) # [])"
    by (rule example_started(2))
  note r1 = failed_or_unanswered_run_gives_fallback [where
           thread_id = "JStr ''thread_1''" and message = "JStr ''hello''",
           OF a b, THEN conjunct1, THEN mp, OF conjI [OF c d], THEN conjunct1, THEN mp, OF st1]
  note r2 = failed_or_unanswered_run_gives_fallback [where
           thread_id = "JStr ''thread_1''" and message = "JStr ''hello''",
           OF a b, THEN conjunct2, THEN mp, OF conjI [OF e conjI [OF f g]],
           THEN conjunct2, THEN mp, OF st2]
  have a': "list_all idle_reply [json_reply 200 (status_body ''queued'')]"
    using a by (simp only: list_all_iff)
  show ?thesis
    by (intro conjI a' b c d e f g st1 st2 r1 r2)
qed


text \<open>
  Claim C4, as the code has it.  \<^verbatim>\<open>send_message\<close> answers a run that ends in failure or that
  outlasts the thirty polls with the fallback string, and \<^verbatim>\<open>chat\<close> tests only whether the
  answer is truthy.  The fallback string is not empty, so a chat request with a non-empty
  message whose run, after polls that took no branch, is reported \<^verbatim>\<open>failed\<close>, \<^verbatim>\<open>cancelled\<close> or
  \<^verbatim>\<open>expired\<close>, or is still not finished after thirty polls, is answered with status 200 and
  the success body whose \<^verbatim>\<open>response\<close> is the fallback string and whose \<^verbatim>\<open>thread_id\<close> is the
  cached thread; nothing of the service's replies is part of the body.  Here \<open>w1\<close> is the
  world in which \<^verbatim>\<open>send_message\<close> is called, after the thread was created if none was cached.
\<close>

theorem failed_or_timed_out_run_is_answered_with_fallback:
  assumes "map_of body ''message'' = Some m" and "py_truthy m"
    and "py_truthy (current_thread_id w1)"
    and "\<forall>p\<in>set ps. idle_reply p"
  shows
   "(w1 = ensure_thread agent_create_thread w \<and>
       run_started agent_get_headers w1 h run_id (ps @ p # rest) \<and>
       length ps < 30 \<and> status_reply p s \<and> failure_status s \<longrightarrow>
       fst (agent_chat (Inr (JObj body)) w) =
         (JObj [(''response'', JStr fallback), (''thread_id'', current_thread_id w1)], 200)) \<and>
    (w1 = ensure_thread agent_create_thread w \<and>
       run_started agent_get_headers w1 h run_id (ps @ rest) \<and> length ps = 30 \<longrightarrow>
       fst (agent_chat (Inr (JObj body)) w) =
         (JObj [(''response'', JStr fallback), (''thread_id'', current_thread_id w1)], 200)) \<and>
    (w1 = ensure_thread app_create_thread w \<and>
       run_started app_get_auth_headers w1 h run_id (ps @ p # rest) \<and>
       length ps < 30 \<and> status_reply p s \<and> failure_status s \<longrightarrow>
       fst (app_chat (Inr (JObj body)) w) =
         (JObj [(''response'', JStr fallback), (''thread_id'', current_thread_id w1)], 200)) \<and>
    (w1 = ensure_thread app_create_thread w \<and>
       run_started app_get_auth_headers w1 h run_id (ps @ rest) \<and> length ps = 30 \<longrightarrow>
       fst (app_chat (Inr (JObj body)) w) =
         (JObj [(''response'', JStr fallback), (''thread_id'', current_thread_id w1)], 200))"
  unfolding agent_chat_def app_chat_def agent_send_message_def app_send_message_def
    agent_create_agent_def app_create_agent_def
  using chat_failure [OF assms(1,2) _ assms(3) _ assms(4)]
    chat_timeout [OF assms(1,2) _ assms(3) _ assms(4)]
  by blast

theorem failed_or_timed_out_run_is_answered_with_fallback_witness:
  "map_of [(''message'', JStr ''hello'')] ''message'' = Some (JStr ''hello'') \<and>
   py_truthy (JStr ''hello'') \<and>
   py_truthy (current_thread_id
     (example_world (started_replies @ [] @ json_reply 200 (status_body ''expired'') # []))) \<and>
   list_all idle_reply [] \<and>
   example_world (started_replies @ [] @ json_reply 200 (status_body ''expired'') # []) =
     ensure_thread app_create_thread
       (example_world (started_replies @ [] @ json_reply 200 (status_body ''expired'') # [])) \<and>
   run_started app_get_auth_headers
     (example_world (started_replies @ [] @ json_reply 200 (status_body ''expired'') # []))
     example_headers (JStr ''run_1'') ([] @ json_reply 200 (status_body ''expired'') # []) \<and>
   length ([] :: reply list) < 30 \<and>
   status_reply (json_reply 200 (status_body ''expired'')) (JStr ''expired'') \<and>
   failure_status (JStr ''expired'') \<and>
   fst (app_chat (Inr (JObj [(''message'', JStr ''hello'')]))
     (example_world (started_replies @ [] @ json_reply 200 (status_body ''expired'') # []))) =
     (JObj [(''response'', JStr fallback),
            (''thread_id'', current_thread_id
               (example_world (started_replies @ [] @
                  json_reply 200 (status_body ''expired'') # [])))], 200)"
proof -
  let ?w = "example_world (started_replies @ [] @ json_reply 200 (status_body ''expired'') # [])"
  have a: "map_of [(''message'', JStr ''hello'')] ''message'' = Some (JStr ''hello'')" by simp
  have b: "py_truthy (JStr ''hello'')" by simp
  have c: "py_truthy (current_thread_id ?w)" by simp
  have d: "\<forall>p\<in>set ([] :: reply list). idle_reply p" by simp
  have d': "list_all idle_reply []" by simp
  have e: "?w = ensure_thread app_create_thread ?w" by simp
  have f: "run_started app_get_auth_headers ?w example_headers (JStr ''run_1'')
      ([] @ json_reply 200 (status_body ''expired'') # [])"
    by (rule example_started(2))
  have g: "length ([] :: reply list) < 30" by simp
  have i: "status_reply (json_reply 200 (status_body ''expired'')) (JStr ''expired'')" by simp
  have j: "failure_status (JStr ''expired'')" by (simp add: failure_status_def)
  note r = failed_or_timed_out_run_is_answered_with_fallback [OF a b c d,
      THEN conjunct2, THEN conjunct2, THEN conjunct1, THEN mp,
      OF conjI [OF e conjI [OF f conjI [OF g conjI [OF i j]]]]]
  show ?thesis
    by (intro conjI a b c d' e f g i j r)
qed


text \<open>
  The generic server error that the specification describes for such a request is not what
  the handler returns: for a run reported \<^verbatim>\<open>failed\<close> at its first poll, \<^verbatim>\<open>chat\<close> of
  \<^verbatim>\<open>agent.py\<close> answers with status 200 and a success body, not with an error body.
\<close>

theorem failed_run_is_answered_with_success:
  "(let r = fst (agent_chat (Inr (JObj [(''message'', JStr ''hello'')]))
               (example_world (started_replies @ [json_reply 200 (status_body ''failed'')])))
    in snd r = 200 \<and> is_success_body (fst r) \<and> \<not> is_error_body (fst r) \<and>
       fst r = JObj [(''response'', JStr fallback), (''thread_id'', JStr ''thread_1'')])"
proof -
  let ?w = "example_world (started_replies @ [] @ json_reply 200 (status_body ''failed'') # [])"
  have st: "run_started agent_get_headers ?w example_headers (JStr ''run_1'')
      ([] @ json_reply 200 (status_body ''failed'') # [])"
    by (rule example_started(1))
  have "fst (agent_chat (Inr (JObj [(''message'', JStr ''hello'')])) ?w)
    = (JObj [(''response'', JStr fallback), (''thread_id'', current_thread_id ?w)], 200)"
    unfolding agent_chat_def agent_send_message_def agent_create_agent_def
    by (rule chat_failure [where m = "JStr ''hello''" and s = "JStr ''failed''", OF _ _ _ _ st])
      (simp_all add: failure_status_def)
  then show ?thesis
    by (simp add: Let_def)
qed



text \<open>
  Claim C10.  When a started run is reported \<^verbatim>\<open>completed\<close> and the first message of role
  \<^verbatim>\<open>assistant\<close> in the listing has an empty \<^verbatim>\<open>content\<close> list, or a first content element
  without \<^verbatim>\<open>text\<close> or whose \<^verbatim>\<open>text\<close> has no \<^verbatim>\<open>value\<close>, the expression
  \<^verbatim>\<open>msg['content'][0]['text']['value']\<close> raises (an \<^verbatim>\<open>IndexError\<close> in the first case, a
  \<^verbatim>\<open>KeyError\<close> in the second); the exception leaves \<^verbatim>\<open>send_message\<close>, and \<^verbatim>\<open>chat\<close> answers
  with status 500 and the error body that holds the text of the exception.
\<close>

theorem malformed_assistant_message_gives_500:
  assumes "\<forall>p\<in>set ps. idle_reply p" and "length ps < 30"
    and "status_reply p (JStr ''completed'')" and "messages_reply q (pre @ a # post)"
    and "no_assistant pre" and "py_getitem a ''role'' = Inr (JStr ''assistant'')"
    and "empty_content a \<or> lacks_text_value a"
    and "map_of body ''message'' = Some m" and "py_truthy m"
    and "py_truthy (current_thread_id w1)"
  shows "\<exists>e. text_value a = Inl e \<and>
    (empty_content a \<longrightarrow> e = Exn IndexError ''list index out of range'') \<and>
    (lacks_text_value a \<longrightarrow> e = Exn KeyError (sq ''text'') \<or> e = Exn KeyError (sq ''value'')) \<and>
    (run_started agent_get_headers w h run_id (ps @ p # q # rest) \<longrightarrow>
       fst (agent_send_message thread_id message w) = Inl e) \<and>
    (run_started app_get_auth_headers w h run_id (ps @ p # q # rest) \<longrightarrow>
       fst (app_send_message thread_id message w) = Inl e) \<and>
    (w1 = ensure_thread agent_create_thread w \<and>
       run_started agent_get_headers w1 h run_id (ps @ p # q # rest) \<longrightarrow>
       fst (agent_chat (Inr (JObj body)) w) = (JObj [(''error'', JStr (str_exn e))], 500)) \<and>
    (w1 = ensure_thread app_create_thread w \<and>
       run_started app_get_auth_headers w1 h run_id (ps @ p # q # rest) \<longrightarrow>
       fst (app_chat (Inr (JObj body)) w) = (JObj [(''error'', JStr (str_exn e))], 500))"
proof -
  from assms(7) obtain e where e: "text_value a = Inl e"
    using text_value_empty text_value_lacking by blast
  have e1: "e = Exn IndexError ''list index out of range''" if "empty_content a"
    using text_value_empty [OF that] e by simp
  have e2: "e = Exn KeyError (sq ''text'') \<or> e = Exn KeyError (sq ''value'')"
    if "lacks_text_value a"
    using text_value_lacking [OF that] e by auto
  have s: "fst (send_message (create_agent gh pl) gh ra thread_id message w) = Inl e"
    if "run_started gh w h run_id (ps @ p # q # rest)" for gh pl ra
    by (simp add: send_message_raises [OF that assms(1-6) e])
  have c: "fst (chat ct (send_message (create_agent gh pl) gh ra) (Inr (JObj body)) w) =
      (JObj [(''error'', JStr (str_exn e))], 500)"
    if "w1 = ensure_thread ct w" "run_started gh w1 h run_id (ps @ p # q # rest)" for ct gh pl ra
    by (rule chat_raises [OF assms(8,9) that(1) assms(10) that(2) assms(1-6) e])
  show ?thesis
    unfolding agent_chat_def app_chat_def agent_send_message_def app_send_message_def
      agent_create_agent_def app_create_agent_def
    using e e1 e2 s c by blast
qed

theorem malformed_assistant_message_gives_500_witness:
  "list_all idle_reply [] \<and> length ([] :: reply list) < 30 \<and>
   status_reply (json_reply 200 (status_body ''completed'')) (JStr ''completed'') \<and>
   messages_reply
     (json_reply 200 (JObj [(''data'',
        JArr [JObj [(''role'', JStr ''assistant''), (''content'', JArr [])]])]))
     ([] @ JObj [(''role'', JStr ''assistant''), (''content'', JArr [])] # []) \<and>
   no_assistant [] \<and>
   py_getitem (JObj [(''role'', JStr ''assistant''), (''content'', JArr [])]) ''role''
     = Inr (JStr ''assistant'') \<and>
   empty_content (JObj [(''role'', JStr ''assistant''), (''content'', JArr [])]) \<and>
   map_of [(''message'', JStr ''hello'')] ''message'' = Some (JStr ''hello'') \<and>
   py_truthy (JStr ''hello'') \<and>
   py_truthy (current_thread_id (example_world (started_replies @ [] @
      json_reply 200 (status_body ''completed'') #
      json_reply 200 (JObj [(''data'',
        JArr [JObj [(''role'', JStr ''assistant''), (''content'', JArr [])]])]) # []))) \<and>
   run_started agent_get_headers
     (example_world (started_replies @ [] @
        json_reply 200 (status_body ''completed'') #
        json_reply 200 (JObj [(''data'',
          JArr [JObj [(''role'', JStr ''assistant''), (''content'', JArr [])]])]) # []))
     example_headers (JStr ''run_1'')
     ([] @ json_reply 200 (status_body ''completed'') #
        json_reply 200 (JObj [(''data'',
          JArr [JObj [(''role'', JStr ''assistant''), (''content'', JArr [])]])]) # []) \<and>
   fst (agent_send_message (JStr ''thread_1'') (JStr ''hello'')
     (example_world (started_replies @ [] @
        json_reply 200 (status_body ''completed'') #
        json_reply 200 (JObj [(''data'',
          JArr [JObj [(''role'', JStr ''assistant''), (''content'', JArr [])]])]) # [])))
     = Inl (Exn IndexError ''list index out of range'') \<and>
   fst (agent_chat (Inr (JObj [(''message'', JStr ''hello'')]))
     (example_world (started_replies @ [] @
        json_reply 200 (status_body ''completed'') #
        json_reply 200 (JObj [(''data'',
          JArr [JObj [(''role'', JStr ''assistant''), (''content'', JArr [])]])]) # [])))
     = (JObj [(''error'', JStr ''list index out of range'')], 500)"
proof -
  let ?a = "JObj [(''role'', JStr ''assistant''), (''content'', JArr [])]"
  let ?q = "json_reply 200 (JObj [(''data'', JArr [?a])])"
  let ?w = "example_world (started_replies @ [] @
      json_reply 200 (status_body ''completed'') # ?q # [])"
  have a: "\<forall>p\<in>set ([] :: reply list). idle_reply p" by simp
  have a': "list_all idle_reply []" by simp
  have b: "length ([] :: reply list) < 30" by simp
  have c: "status_reply (json_reply 200 (status_body ''completed'')) (JStr ''completed'')"
    by simp
  have d: "messages_reply ?q ([] @ ?a # [])"
    by (simp add: messages_reply_def json_reply_def)
  have e: "no_assistant []" by (simp add: no_assistant_def)
  have f: "py_getitem ?a ''role'' = Inr (JStr ''assistant'')" by simp
  have g: "empty_content ?a" by (simp add: empty_content_def)
  have i: "map_of [(''message'', JStr ''hello'')] ''message'' = Some (JStr ''hello'')" by simp
  have j: "py_truthy (JStr ''hello'')" by simp
  have k: "py_truthy (current_thread_id ?w)" by simp
  have l: "?w = ensure_thread agent_create_thread ?w" by simp
  have st: "run_started agent_get_headers ?w example_headers (JStr ''run_1'')
      ([] @ json_reply 200 (status_body ''completed'') # ?q # [])"
    by (rule example_started(1))
  from malformed_assistant_message_gives_500 [OF a b c d e f disjI1 [OF g] i j k,
      where w = ?w and h = example_headers and run_id = "JStr ''run_1''" and rest = "[]"
        and thread_id = "JStr ''thread_1''" and message = "JStr ''hello''"]
  have r1: "fst (agent_send_message (JStr ''thread_1'') (JStr ''hello'') ?w)
      = Inl (Exn IndexError ''list index out of range'')"
    and r2: "fst (agent_chat (Inr (JObj [(''message'', JStr ''hello'')])) ?w)
      = (JObj [(''error'', JStr ''list index out of range'')], 500)"
    using g st l by auto
  show ?thesis
    by (intro conjI a' b c d e f g i j k st r1 r2)
qed


text \<open>
  Claim C6.  For a request whose message is not empty, \<^verbatim>\<open>chat\<close> returns exactly one of two
  things, whatever the service answers: with status 200 the body that holds a non-empty
  \<^verbatim>\<open>response\<close> and the \<^verbatim>\<open>thread_id\<close>, or with status 500 the body that holds only an
  \<^verbatim>\<open>error\<close> string.  No returned body is of both shapes, and none is of neither.
\<close>

theorem chat_gives_exactly_one_outcome:
  assumes "map_of body ''message'' = Some m" and "py_truthy m"
  shows
    "(case fst (agent_chat (Inr (JObj body)) w) of (b, c) \<Rightarrow>
        (is_success_body b \<and> \<not> is_error_body b \<and> c = 200) \<or>
        (is_error_body b \<and> \<not> is_success_body b \<and> c = 500)) \<and>
     (case fst (app_chat (Inr (JObj body)) w) of (b, c) \<Rightarrow>
        (is_success_body b \<and> \<not> is_error_body b \<and> c = 200) \<or>
        (is_error_body b \<and> \<not> is_success_body b \<and> c = 500))"
proof -
  have "case fst (chat ct sm (Inr (JObj body)) w) of (b, c) \<Rightarrow>
        (is_success_body b \<and> \<not> is_error_body b \<and> c = 200) \<or>
        (is_error_body b \<and> \<not> is_success_body b \<and> c = 500)" for ct sm
  proof -
    obtain b c w' where r: "chat ct sm (Inr (JObj body)) w = ((b, c), w')"
      by (metis surj_pair)
    show ?thesis
      using chat_outcome_message [OF assms r] by (simp add: r)
  qed
  then show ?thesis by (simp add: agent_chat_def app_chat_def)
qed

theorem chat_gives_exactly_one_outcome_witness:
  "map_of [(''message'', JStr ''hello'')] ''message'' = Some (JStr ''hello'') \<and>
   py_truthy (JStr ''hello'') \<and>
   (case fst (agent_chat (Inr (JObj [(''message'', JStr ''hello'')])) (example_world [])) of
      (b, c) \<Rightarrow>
        (is_success_body b \<and> \<not> is_error_body b \<and> c = 200) \<or>
        (is_error_body b \<and> \<not> is_success_body b \<and> c = 500)) \<and>
   (case fst (app_chat (Inr (JObj [(''message'', JStr ''hello'')])) (example_world [])) of
      (b, c) \<Rightarrow>
        (is_success_body b \<and> \<not> is_error_body b \<and> c = 200) \<or>
        (is_error_body b \<and> \<not> is_success_body b \<and> c = 500))"
proof -
  have a: "map_of [(''message'', JStr ''hello'')] ''message'' = Some (JStr ''hello'')" by simp
  have b: "py_truthy (JStr ''hello'')" by simp
  show ?thesis
    using chat_gives_exactly_one_outcome [OF a b, of "example_world []"] a b by blast
qed


text \<open>
  Claim C7.  Once a thread identifier is cached, a chat request neither changes it nor
  sends a request that creates a thread, and so no sequence of chat requests handled one
  after the other does; in particular the second of two consecutive requests keeps the
  identifier that the first one left.  A single chat request sends at most one request that
  creates a thread, whatever the state it starts from.
\<close>

theorem cached_thread_is_reused:
  "(py_truthy (current_thread_id w) \<longrightarrow>
      current_thread_id (snd (agent_chat rq w)) = current_thread_id w \<and>
      thread_posts (ENDPOINT w) (trace (snd (agent_chat rq w))) =
        thread_posts (ENDPOINT w) (trace w) \<and>
      current_thread_id (serve agent_chat rqs w) = current_thread_id w \<and>
      thread_posts (ENDPOINT w) (trace (serve agent_chat rqs w)) =
        thread_posts (ENDPOINT w) (trace w) \<and>
      current_thread_id (snd (app_chat rq w)) = current_thread_id w \<and>
      thread_posts (ENDPOINT w) (trace (snd (app_chat rq w))) =
        thread_posts (ENDPOINT w) (trace w) \<and>
      current_thread_id (serve app_chat rqs w) = current_thread_id w \<and>
      thread_posts (ENDPOINT w) (trace (serve app_chat rqs w)) =
        thread_posts (ENDPOINT w) (trace w)) \<and>
   (py_truthy (current_thread_id (snd (agent_chat rq1 w))) \<longrightarrow>
      current_thread_id (snd (agent_chat rq2 (snd (agent_chat rq1 w)))) =
        current_thread_id (snd (agent_chat rq1 w)) \<and>
      thread_posts (ENDPOINT (snd (agent_chat rq1 w)))
          (trace (snd (agent_chat rq2 (snd (agent_chat rq1 w))))) =
        thread_posts (ENDPOINT (snd (agent_chat rq1 w))) (trace (snd (agent_chat rq1 w)))) \<and>
   (py_truthy (current_thread_id (snd (app_chat rq1 w))) \<longrightarrow>
      current_thread_id (snd (app_chat rq2 (snd (app_chat rq1 w)))) =
        current_thread_id (snd (app_chat rq1 w)) \<and>
      thread_posts (ENDPOINT (snd (app_chat rq1 w)))
          (trace (snd (app_chat rq2 (snd (app_chat rq1 w))))) =
        thread_posts (ENDPOINT (snd (app_chat rq1 w))) (trace (snd (app_chat rq1 w)))) \<and>
   thread_posts (ENDPOINT w) (trace (snd (agent_chat rq w)))
     \<le> thread_posts (ENDPOINT w) (trace w) + 1 \<and>
   thread_posts (ENDPOINT w) (trace (snd (app_chat rq w)))
     \<le> thread_posts (ENDPOINT w) (trace w) + 1"
proof -
  have one: "current_thread_id (snd (chat ct sm rq w)) = current_thread_id w \<and>
      thread_posts (ENDPOINT w) (trace (snd (chat ct sm rq w))) =
        thread_posts (ENDPOINT w) (trace w)"
    if "\<And>t m w. thread_state (snd (sm t m w)) = thread_state w"
      "py_truthy (current_thread_id w)" for ct sm rq w
    using ts_fields(1,3) [OF ts_chat [of sm w ct rq, OF that]] by simp
  have many: "current_thread_id (serve (chat ct sm) rqs w) = current_thread_id w \<and>
      thread_posts (ENDPOINT w) (trace (serve (chat ct sm) rqs w)) =
        thread_posts (ENDPOINT w) (trace w)"
    if "\<And>t m w. thread_state (snd (sm t m w)) = thread_state w"
      "py_truthy (current_thread_id w)" for ct sm
    using ts_fields(1,3) [OF ts_serve [of sm w ct rqs, OF that]] by simp
  note a = ts_agent_send_message and b = ts_app_send_message
  show ?thesis
    unfolding agent_chat_def app_chat_def agent_create_thread_def app_create_thread_def
    using one [of agent_send_message w, OF a] one [of app_send_message w, OF b]
      many [of agent_send_message, OF a] many [of app_send_message, OF b]
      one [of agent_send_message
        "snd (chat (create_thread agent_get_headers) agent_send_message rq1 w)", OF a]
      one [of app_send_message
        "snd (chat (create_thread app_get_auth_headers) app_send_message rq1 w)", OF b]
      chat_posts [of agent_send_message w agent_get_headers rq, OF a]
      chat_posts [of app_send_message w app_get_auth_headers rq, OF b]
    by simp
qed

theorem cached_thread_is_reused_witness:
  "py_truthy (current_thread_id (example_world [])) \<and>
   current_thread_id (snd (agent_chat (Inr (JObj [(''message'', JStr ''hello'')]))
      (example_world []))) = current_thread_id (example_world []) \<and>
   thread_posts (ENDPOINT (example_world []))
      (trace (serve agent_chat [Inr (JObj [(''message'', JStr ''hello'')]),
                                Inr (JObj [(''message'', JStr ''again'')])] (example_world [])))
     = thread_posts (ENDPOINT (example_world [])) (trace (example_world [])) \<and>
   py_truthy (current_thread_id (snd (app_chat (Inr (JObj [(''message'', JStr ''hello'')]))
      (fresh_world [json_reply 200 (JObj [(''id'', JStr ''thread_7'')])])))) \<and>
   current_thread_id
      (snd (app_chat (Inr (JObj [(''message'', JStr ''again'')]))
         (snd (app_chat (Inr (JObj [(''message'', JStr ''hello'')]))
            (fresh_world [json_reply 200 (JObj [(''id'', JStr ''thread_7'')])])))))
     = current_thread_id (snd (app_chat (Inr (JObj [(''message'', JStr ''hello'')]))
         (fresh_world [json_reply 200 (JObj [(''id'', JStr ''thread_7'')])]))) \<and>
   thread_posts
      (ENDPOINT (snd (app_chat (Inr (JObj [(''message'', JStr ''hello'')]))
         (fresh_world [json_reply 200 (JObj [(''id'', JStr ''thread_7'')])]))))
      (trace (snd (app_chat (Inr (JObj [(''message'', JStr ''again'')]))
         (snd (app_chat (Inr (JObj [(''message'', JStr ''hello'')]))
            (fresh_world [json_reply 200 (JObj [(''id'', JStr ''thread_7'')])]))))))
     = thread_posts
      (ENDPOINT (snd (app_chat (Inr (JObj [(''message'', JStr ''hello'')]))
         (fresh_world [json_reply 200 (JObj [(''id'', JStr ''thread_7'')])]))))
      (trace (snd (app_chat (Inr (JObj [(''message'', JStr ''hello'')]))
         (fresh_world [json_reply 200 (JObj [(''id'', JStr ''thread_7'')])]))))"
proof -
  have a: "py_truthy (current_thread_id (example_world []))" by simp
  have b: "py_truthy (current_thread_id (snd (app_chat (Inr (JObj [(''message'', JStr ''hello'')]))
      (fresh_world [json_reply 200 (JObj [(''id'', JStr ''thread_7'')])]))))"
    by code_simp
  show ?thesis
    using a b
      cached_thread_is_reused [where w = "example_world []"
        and rq = "Inr (JObj [(''message'', JStr ''hello'')])"
        and rqs = "[Inr (JObj [(''message'', JStr ''hello'')]),
                    Inr (JObj [(''message'', JStr ''again'')])]"
        and ?rq1.0 = "Inr (JObj [(''message'', JStr ''hello'')])"
        and ?rq2.0 = "Inr (JObj [(''message'', JStr ''again'')])"]
      cached_thread_is_reused [where
        w = "fresh_world [json_reply 200 (JObj [(''id'', JStr ''thread_7'')])]"
        and rq = "Inr (JObj [(''message'', JStr ''hello'')])"
        and rqs = "[]"
        and ?rq1.0 = "Inr (JObj [(''message'', JStr ''hello'')])"
        and ?rq2.0 = "Inr (JObj [(''message'', JStr ''again'')])"]
    by blast
qed

end
